theory Spec2Isabelle
  imports Complex_Main "HOL-Library.Word" "HOL-Library.Signed_Division" "HOL-Library.Multiset"
    "HOL-Library.Monad_Syntax"
begin

unbundle bit_operations_syntax

section \<open>Thermal tyre driver: detection pipeline and output boundary\<close>

text \<open>
  The development embeds the C sources of the Pico firmware:
  \<^item> \<^verbatim>\<open>test_mlx_with_detection.c\<close>: the MAD-based detector with region growing, the
    three stabiliser stages and the zone analyser (the later, more complete variant);
  \<^item> \<^verbatim>\<open>thermal_algorithm.c\<close>: the early variant used by \<^verbatim>\<open>main.c\<close>;
  \<^item> \<^verbatim>\<open>communication.c\<close> and \<^verbatim>\<open>i2c_slave.c\<close>: the serial and register-map outputs.

  Conventions. A C \<^verbatim>\<open>float\<close> inside the pipeline is a \<^typ>\<open>real\<close>: the arithmetic is
  exact and every value is finite (the pipeline's own input contract). Non-finite values
  exist only at the output boundary, where a \<^verbatim>\<open>float\<close> is a value of the datatype
  \<open>cfloat\<close>. A C \<^verbatim>\<open>int\<close> is an \<^typ>\<open>int\<close>; all column arithmetic stays far below
  \<open>2^31\<close>. The quotient of two C integers is \<open>sdiv\<close> (truncation towards zero) and the
  conversion of a \<^verbatim>\<open>float\<close> to \<^verbatim>\<open>int\<close> is \<open>c_trunc\<close>. A C array is a list, written
  by \<open>xs[i := v]\<close>; every index the code uses is inside the array it was declared with.
\<close>

subsection \<open>Constants and data (test\_mlx\_with\_detection.c)\<close>

definition SENSOR_WIDTH :: nat where
  "SENSOR_WIDTH = 32"

definition SENSOR_HEIGHT :: nat where
  "SENSOR_HEIGHT = 24"

definition MIDDLE_ROWS :: nat where
  "MIDDLE_ROWS = 4"

definition START_ROW :: nat where
  "START_ROW = 10"

record DetectionConfig =
  min_temp :: real
  max_temp :: real
  brake_temp_threshold :: real
  mad_uniform_threshold :: real
  k_floor :: real
  k_multiplier :: real
  delta_floor :: real
  delta_multiplier :: real
  max_fail_count :: int
  centre_col :: int
  min_tyre_width :: int
  max_tyre_width :: int
  max_width_change_ratio :: real
  ema_alpha :: real
  persistence_frames :: int

definition config :: DetectionConfig where
  "config = \<lparr> min_temp = 0, max_temp = 180, brake_temp_threshold = 180,
     mad_uniform_threshold = 0.5, k_floor = 5, k_multiplier = 2, delta_floor = 3,
     delta_multiplier = 1.8, max_fail_count = 2, centre_col = 16, min_tyre_width = 6,
     max_tyre_width = 28, max_width_change_ratio = 0.3, ema_alpha = 0.3,
     persistence_frames = 2 \<rparr>"

record ZoneStats =
  zs_avg :: real
  zs_median :: real
  zs_mad :: real
  zs_min :: real
  zs_max :: real
  zs_range :: real
  zs_std :: real

record TyreData =
  left :: ZoneStats
  centre :: ZoneStats
  right :: ZoneStats
  detected :: int
  span_start :: int
  span_end :: int
  tyre_width :: int
  confidence :: real
  lateral_gradient :: real

record TemporalState =
  prev_profile :: "real list"
  prev_detections :: "(int \<times> int) list"
  prev_detection_count :: int
  has_previous :: bool

text \<open>\<^verbatim>\<open>static TemporalState temporal_state = {0}\<close> and \<^verbatim>\<open>memset(&tyre, 0, ...)\<close>.\<close>

definition temporal_state_init :: TemporalState where
  "temporal_state_init = \<lparr> prev_profile = replicate SENSOR_WIDTH 0,
     prev_detections = [(0, 0), (0, 0)], prev_detection_count = 0, has_previous = False \<rparr>"

definition zone_stats_zero :: ZoneStats where
  "zone_stats_zero = \<lparr> zs_avg = 0, zs_median = 0, zs_mad = 0, zs_min = 0, zs_max = 0,
     zs_range = 0, zs_std = 0 \<rparr>"

definition tyre_data_zero :: TyreData where
  "tyre_data_zero = \<lparr> left = zone_stats_zero, centre = zone_stats_zero,
     right = zone_stats_zero, detected = 0, span_start = 0, span_end = 0, tyre_width = 0,
     confidence = 0, lateral_gradient = 0 \<rparr>"

definition c_trunc :: "real \<Rightarrow> int" where
  "c_trunc x = (if 0 \<le> x then \<lfloor>x\<rfloor> else \<lceil>x\<rceil>)"

subsection \<open>Median, MAD and standard deviation\<close>

definition swap_float :: "nat \<Rightarrow> nat \<Rightarrow> real list \<Rightarrow> real list" where
  "swap_float i j arr = arr[i := arr ! j, j := arr ! i]"

text \<open>The two nested loops of \<^verbatim>\<open>quick_select_median\<close>: the inner one over \<open>j\<close>, the outer over \<open>i\<close>.\<close>

function sort_inner :: "real list \<Rightarrow> nat \<Rightarrow> nat \<Rightarrow> nat \<Rightarrow> real list" where
  "sort_inner arr i j n =
     (if j < n
      then sort_inner (if arr ! i > arr ! j then swap_float i j arr else arr) i (Suc j) n
      else arr)"
  by pat_completeness auto
termination
  by (relation "measure (\<lambda>(arr, i, j, n). n - j)") auto

function sort_outer :: "real list \<Rightarrow> nat \<Rightarrow> nat \<Rightarrow> real list" where
  "sort_outer arr i n =
     (if Suc i < n then sort_outer (sort_inner arr i (Suc i) n) (Suc i) n else arr)"
  by pat_completeness auto
termination
  by (relation "measure (\<lambda>(arr, i, n). n - i)") auto

declare sort_inner.simps [simp del]
declare sort_outer.simps [simp del]

definition quick_select_median :: "real list \<Rightarrow> nat \<Rightarrow> real" where
  "quick_select_median arr n =
     (if n = 0 then 0
      else if n = 1 then arr ! 0
      else (let s = sort_outer arr 0 n
            in if n mod 2 = 0 then (s ! (n div 2 - 1) + s ! (n div 2)) / 2
               else s ! (n div 2)))"

definition clip_count :: "nat \<Rightarrow> nat" where
  "clip_count n = (if n > SENSOR_WIDTH * MIDDLE_ROWS then SENSOR_WIDTH * MIDDLE_ROWS else n)"

definition calculate_median :: "real list \<Rightarrow> nat \<Rightarrow> real" where
  "calculate_median data n = quick_select_median (take (clip_count n) data) (clip_count n)"

definition calculate_mad :: "real list \<Rightarrow> nat \<Rightarrow> real" where
  "calculate_mad data n =
     (if n = 0 then 0
      else (let median = calculate_median data n;
                deviations = map (\<lambda>i. \<bar>data ! i - median\<bar>) [0..<clip_count n]
            in calculate_median deviations (clip_count n) * 1.4826))"

definition calculate_std :: "real list \<Rightarrow> nat \<Rightarrow> real" where
  "calculate_std data n =
     (if n = 0 then 0
      else (let sum = fold (\<lambda>i s. s + data ! i) [0..<n] 0;
                mean = sum / real n;
                sq_sum = fold (\<lambda>i s. s + (data ! i - mean) * (data ! i - mean)) [0..<n] 0
            in sqrt (sq_sum / real n)))"

subsection \<open>Hot-pixel removal, spatial and temporal filters\<close>

text \<open>
  \<^verbatim>\<open>remove_hot_pixels\<close> rewrites the row in place from left to right, so the left
  neighbour it reads is the value already written.
\<close>

function remove_hot_pixels_from :: "DetectionConfig \<Rightarrow> real list \<Rightarrow> nat \<Rightarrow> nat \<Rightarrow> real list" where
  "remove_hot_pixels_from cfg row i width =
     (if i < width
      then (if row ! i > brake_temp_threshold cfg
            then (let neighbors = (if i > 0 then [row ! (i - 1)] else [])
                                  @ (if i + 1 < width then [row ! (i + 1)] else []);
                      count = length neighbors
                  in remove_hot_pixels_from cfg
                       (if count > 0 then row[i := calculate_median neighbors count] else row)
                       (Suc i) width)
            else remove_hot_pixels_from cfg row (Suc i) width)
      else row)"
  by pat_completeness auto
termination
  by (relation "measure (\<lambda>(cfg, row, i, width). width - i)") auto

declare remove_hot_pixels_from.simps [simp del]

definition remove_hot_pixels :: "DetectionConfig \<Rightarrow> real list \<Rightarrow> nat \<Rightarrow> real list" where
  "remove_hot_pixels cfg row width = remove_hot_pixels_from cfg row 0 width"

definition median_filter_3 :: "real list \<Rightarrow> nat \<Rightarrow> real list" where
  "median_filter_3 input n =
     map (\<lambda>i. if i = 0 then calculate_median [input ! 0, input ! 1] 2
              else if i = n - 1 then calculate_median [input ! (n - 2), input ! (n - 1)] 2
              else calculate_median [input ! (i - 1), input ! i, input ! (i + 1)] 3)
         [0..<n]"

text \<open>
  \<^verbatim>\<open>apply_ema\<close> writes the caller's \<open>output\<close> buffer and the global state; the loop of
  its second branch updates both arrays index by index.
\<close>

function ema_loop :: "DetectionConfig \<Rightarrow> real list \<Rightarrow> nat \<Rightarrow> nat \<Rightarrow> real list \<times> real list
                      \<Rightarrow> real list \<times> real list" where
  "ema_loop cfg current i n (output, prev) =
     (if i < n
      then (let v = ema_alpha cfg * current ! i + (1 - ema_alpha cfg) * prev ! i
            in ema_loop cfg current (Suc i) n (output[i := v], prev[i := v]))
      else (output, prev))"
  by pat_completeness auto
termination
  by (relation "measure (\<lambda>(cfg, current, i, n, bufs). n - i)") auto

declare ema_loop.simps [simp del]

definition memcpy :: "real list \<Rightarrow> real list \<Rightarrow> nat \<Rightarrow> real list" where
  "memcpy dst src n = take n src @ drop n dst"

definition apply_ema :: "DetectionConfig \<Rightarrow> TemporalState \<Rightarrow> real list \<Rightarrow> real list \<Rightarrow> nat
                         \<Rightarrow> real list \<times> TemporalState" where
  "apply_ema cfg st current output n =
     (if \<not> has_previous st
      then (memcpy output current n,
            st\<lparr>prev_profile := memcpy (prev_profile st) current n, has_previous := True\<rparr>)
      else (let (out, prev) = ema_loop cfg current 0 n (output, prev_profile st)
            in (out, st\<lparr>prev_profile := prev\<rparr>)))"

subsection \<open>Region grower\<close>

text \<open>The body shared by the two growth loops of \<^verbatim>\<open>grow_region\<close>: the dual criteria.\<close>

definition extends_span :: "real \<Rightarrow> real \<Rightarrow> bool \<Rightarrow> real \<Rightarrow> real \<Rightarrow> real \<Rightarrow> bool" where
  "extends_span centre_temp k inverted median_temp delta temp =
     (let within_k = (\<bar>temp - centre_temp\<bar> \<le> k);
          global_ok = (if inverted then temp \<le> median_temp - delta
                       else temp \<ge> median_temp + delta)
      in within_k \<or> global_ok)"

function grow_left :: "DetectionConfig \<Rightarrow> real list \<Rightarrow> (real \<Rightarrow> bool) \<Rightarrow> int \<Rightarrow> int \<Rightarrow> int \<Rightarrow> int" where
  "grow_left cfg profile ok i lft fail_count =
     (if i \<ge> 0
      then (if ok (profile ! nat i)
            then grow_left cfg profile ok (i - 1) i 0
            else (if fail_count + 1 > max_fail_count cfg then lft
                  else grow_left cfg profile ok (i - 1) lft (fail_count + 1)))
      else lft)"
  by pat_completeness auto
termination
  by (relation "measure (\<lambda>(cfg, profile, ok, i, lft, fail_count). nat (i + 1))") auto

function grow_right :: "DetectionConfig \<Rightarrow> real list \<Rightarrow> (real \<Rightarrow> bool) \<Rightarrow> int \<Rightarrow> int \<Rightarrow> int \<Rightarrow> int" where
  "grow_right cfg profile ok i rgt fail_count =
     (if i < int SENSOR_WIDTH
      then (if ok (profile ! nat i)
            then grow_right cfg profile ok (i + 1) i 0
            else (if fail_count + 1 > max_fail_count cfg then rgt
                  else grow_right cfg profile ok (i + 1) rgt (fail_count + 1)))
      else rgt)"
  by pat_completeness auto
termination
  by (relation "measure (\<lambda>(cfg, profile, ok, i, rgt, fail_count). nat (int SENSOR_WIDTH - i))") auto

declare grow_left.simps [simp del]
declare grow_right.simps [simp del]

definition region_delta :: "DetectionConfig \<Rightarrow> real \<Rightarrow> real" where
  "region_delta cfg mad_global = max (delta_floor cfg) (delta_multiplier cfg * mad_global)"

definition region_k :: "DetectionConfig \<Rightarrow> real list \<Rightarrow> real" where
  "region_k cfg profile =
     (let centre = centre_col cfg;
          local_start = (if centre - 2 \<ge> 0 then centre - 2 else 0);
          local_end = (if centre + 2 < int SENSOR_WIDTH then centre + 2 else int SENSOR_WIDTH - 1);
          local_n = local_end - local_start + 1;
          local_mad = calculate_mad (drop (nat local_start) profile) (nat local_n)
      in max (k_floor cfg) (k_multiplier cfg * local_mad))"

definition region_ok :: "DetectionConfig \<Rightarrow> real list \<Rightarrow> real \<Rightarrow> real \<Rightarrow> real \<Rightarrow> bool" where
  "region_ok cfg profile median_temp mad_global =
     (let centre_temp = profile ! nat (centre_col cfg);
          delta = region_delta cfg mad_global;
          inverted = (centre_temp < median_temp - delta);
          k = region_k cfg profile
      in extends_span centre_temp k inverted median_temp delta)"

definition grow_region :: "DetectionConfig \<Rightarrow> real list \<Rightarrow> real \<Rightarrow> real \<Rightarrow> int \<times> int" where
  "grow_region cfg profile median_temp mad_global =
     (let centre = centre_col cfg;
          ok = region_ok cfg profile median_temp mad_global;
          lft = grow_left cfg profile ok (centre - 1) centre 0;
          rgt = grow_right cfg profile ok (centre + 1) centre 0
      in (lft, rgt))"

subsection \<open>Stabiliser: geometry clamp, temporal-continuity clamp, persistence\<close>

definition apply_geometry_constraints :: "DetectionConfig \<Rightarrow> int \<Rightarrow> int \<Rightarrow> int \<times> int" where
  "apply_geometry_constraints cfg left0 right0 =
     (let width = right0 - left0 + 1;
          (l1, r1) =
            (if width < min_tyre_width cfg
             then (let expand = (min_tyre_width cfg - width) sdiv 2;
                       l = left0 - expand;
                       r = right0 + expand;
                       (l, r) = (if l < 0 then (0, r + (- l)) else (l, r));
                       (l, r) = (if r \<ge> int SENSOR_WIDTH
                                 then (l - (r - int SENSOR_WIDTH + 1), int SENSOR_WIDTH - 1)
                                 else (l, r))
                   in (l, r))
             else (left0, right0));
          (l2, r2) =
            (if width > max_tyre_width cfg
             then (let shrink = (width - max_tyre_width cfg) sdiv 2
                   in (l1 + shrink, r1 - shrink))
             else (l1, r1));
          l3 = (if l2 < 0 then 0 else l2);
          r3 = (if r2 \<ge> int SENSOR_WIDTH then int SENSOR_WIDTH - 1 else r2)
      in (l3, r3))"

definition apply_temporal_constraints :: "DetectionConfig \<Rightarrow> TemporalState \<Rightarrow> int \<Rightarrow> int \<Rightarrow> int \<times> int" where
  "apply_temporal_constraints cfg st left0 right0 =
     (if prev_detection_count st = 0 then (left0, right0)
      else (let prev_left = fst (prev_detections st ! 0);
                prev_right = snd (prev_detections st ! 0);
                prev_width = prev_right - prev_left + 1;
                current_width = right0 - left0 + 1;
                max_change = real_of_int prev_width * max_width_change_ratio cfg;
                (l1, r1) =
                  (if real_of_int current_width > real_of_int prev_width + max_change
                   then (let target_width = c_trunc (real_of_int prev_width + max_change);
                             shrink = (current_width - target_width) sdiv 2
                         in (left0 + shrink, right0 - shrink))
                   else (left0, right0));
                (l2, r2) =
                  (if real_of_int current_width < real_of_int prev_width - max_change
                   then (let target_width = c_trunc (real_of_int prev_width - max_change);
                             expand = (target_width - current_width) sdiv 2
                         in (l1 - expand, r1 + expand))
                   else (l1, r1));
                l3 = (if l2 < 0 then 0 else l2);
                r3 = (if r2 \<ge> int SENSOR_WIDTH then int SENSOR_WIDTH - 1 else r2)
            in (l3, r3)))"

text \<open>The weighted sums over the stored detections: the loop of \<^verbatim>\<open>apply_persistence\<close>.\<close>

definition persistence_sums :: "DetectionConfig \<Rightarrow> TemporalState \<Rightarrow> real \<times> real \<times> real" where
  "persistence_sums cfg st =
     fold (\<lambda>i (weighted_left, weighted_right, total_weight).
             (let weight = real_of_int ((i + 1) * (i + 1))
              in (weighted_left + real_of_int (fst (prev_detections st ! nat i)) * weight,
                  weighted_right + real_of_int (snd (prev_detections st ! nat i)) * weight,
                  total_weight + weight)))
          [0..persistence_frames cfg - 1] (0, 0, 0)"

definition apply_persistence :: "DetectionConfig \<Rightarrow> TemporalState \<Rightarrow> int \<Rightarrow> int
                                 \<Rightarrow> (int \<times> int) \<times> TemporalState" where
  "apply_persistence cfg st left0 right0 =
     (if prev_detection_count st < persistence_frames cfg
      then (if prev_detection_count st < 2
            then ((left0, right0),
                  st\<lparr>prev_detections :=
                       (prev_detections st)[nat (prev_detection_count st) := (left0, right0)],
                     prev_detection_count := prev_detection_count st + 1\<rparr>)
            else ((left0, right0),
                  st\<lparr>prev_detections :=
                       (prev_detections st)[0 := prev_detections st ! 1, 1 := (left0, right0)]\<rparr>))
      else (let (weighted_left, weighted_right, total_weight) = persistence_sums cfg st;
                current_weight = real_of_int ((persistence_frames cfg + 1) * (persistence_frames cfg + 1));
                weighted_left = weighted_left + real_of_int left0 * current_weight;
                weighted_right = weighted_right + real_of_int right0 * current_weight;
                total_weight = total_weight + current_weight;
                left1 = c_trunc (weighted_left / total_weight);
                right1 = c_trunc (weighted_right / total_weight)
            in ((left1, right1),
                st\<lparr>prev_detections :=
                     (prev_detections st)[0 := prev_detections st ! 1, 1 := (left1, right1)]\<rparr>)))"

subsection \<open>Zone analyser and the detection pipeline\<close>

definition zone_pixels :: "real list \<Rightarrow> int \<Rightarrow> int \<Rightarrow> real list" where
  "zone_pixels frame l r =
     concat (map (\<lambda>row. map (\<lambda>col. frame ! nat (int row * int SENSOR_WIDTH + col))
                             [l..min r (int SENSOR_WIDTH - 1)])
                 [START_ROW..<START_ROW + MIDDLE_ROWS])"

definition calculate_zone_stats :: "real list \<Rightarrow> int \<Rightarrow> int \<Rightarrow> ZoneStats" where
  "calculate_zone_stats frame l r =
     (let pixels = zone_pixels frame l r;
          count = length pixels
      in if count = 0 then zone_stats_zero
         else (let sum = fold (\<lambda>p s. s + p) pixels 0;
                   min_val = fold (\<lambda>p m. if p < m then p else m) pixels (pixels ! 0);
                   max_val = fold (\<lambda>p m. if p > m then p else m) pixels (pixels ! 0)
               in \<lparr> zs_avg = sum / real count,
                    zs_median = calculate_median pixels count,
                    zs_mad = calculate_mad pixels count,
                    zs_min = min_val,
                    zs_max = max_val,
                    zs_range = max_val - min_val,
                    zs_std = calculate_std pixels count \<rparr>))"

text \<open>The lateral gradient of \<^verbatim>\<open>analyze_tyre\<close>: the range of the profile over the span.\<close>

definition span_gradient :: "real list \<Rightarrow> int \<Rightarrow> int \<Rightarrow> real" where
  "span_gradient profile l r =
     (let (min_col_avg, max_col_avg) =
            fold (\<lambda>i (mn, mx). (if profile ! nat i < mn then profile ! nat i else mn,
                                 if profile ! nat i > mx then profile ! nat i else mx))
                 [l + 1..r] (profile ! nat l, profile ! nat l)
      in max_col_avg - min_col_avg)"

definition analyze_tyre :: "DetectionConfig \<Rightarrow> real list \<Rightarrow> real list \<Rightarrow> int \<Rightarrow> int \<Rightarrow> TyreData \<Rightarrow> TyreData" where
  "analyze_tyre cfg frame profile l r result =
     (let width = r - l + 1;
          third = width sdiv 3;
          left_start = l;
          left_end = (if l + third - 1 < left_start then left_start else l + third - 1);
          centre_start = l + third;
          centre_end = (if r - third < centre_start then centre_start else r - third);
          right_end = r;
          right_start = (if r - third + 1 > right_end then right_end else r - third + 1);
          gradient = span_gradient profile l r;
          width_score = (if width \<ge> min_tyre_width cfg \<and> width \<le> max_tyre_width cfg
                         then 1 else 0.5);
          gradient_score = min (gradient / 10) 1
      in result\<lparr> detected := 1, span_start := l, span_end := r, tyre_width := width,
                 left := calculate_zone_stats frame left_start left_end,
                 centre := calculate_zone_stats frame centre_start centre_end,
                 right := calculate_zone_stats frame right_start right_end,
                 lateral_gradient := gradient,
                 confidence := (width_score + gradient_score) / 2 \<rparr>)"

text \<open>
  The front of \<^verbatim>\<open>detect_tyre\<close>: the cleaned middle rows, the column profile, the
  spatial filter and the temporal filter. The buffers \<open>filtered\<close> and \<open>smoothed\<close> are
  locals that the filters overwrite in full.
\<close>

definition middle_row :: "DetectionConfig \<Rightarrow> real list \<Rightarrow> nat \<Rightarrow> real list" where
  "middle_row cfg frame row =
     remove_hot_pixels cfg (take SENSOR_WIDTH (drop ((START_ROW + row) * SENSOR_WIDTH) frame))
       SENSOR_WIDTH"

definition column_profile :: "DetectionConfig \<Rightarrow> real list \<Rightarrow> real list" where
  "column_profile cfg frame =
     map (\<lambda>col. (let col_vals = map (\<lambda>row. middle_row cfg frame row ! col) [0..<MIDDLE_ROWS];
                     p = calculate_median col_vals MIDDLE_ROWS;
                     p = (if p < min_temp cfg then min_temp cfg else p);
                     p = (if p > max_temp cfg then max_temp cfg else p)
                 in p))
         [0..<SENSOR_WIDTH]"

definition smooth_profile :: "DetectionConfig \<Rightarrow> TemporalState \<Rightarrow> real list
                              \<Rightarrow> real list \<times> TemporalState" where
  "smooth_profile cfg st frame =
     (let profile = column_profile cfg frame;
          filtered = median_filter_3 profile SENSOR_WIDTH
      in apply_ema cfg st filtered (replicate SENSOR_WIDTH 0) SENSOR_WIDTH)"

definition detect_tyre :: "DetectionConfig \<Rightarrow> TemporalState \<Rightarrow> real list \<Rightarrow> TyreData
                           \<Rightarrow> int \<times> TemporalState \<times> TyreData" where
  "detect_tyre cfg st frame result =
     (let (smoothed, st1) = smooth_profile cfg st frame;
          median_temp = calculate_median smoothed SENSOR_WIDTH;
          mad_global = calculate_mad smoothed SENSOR_WIDTH
      in if mad_global < mad_uniform_threshold cfg
         then (let third = int SENSOR_WIDTH sdiv 3
               in (0, st1,
                   result\<lparr> detected := 0,
                           left := calculate_zone_stats frame 0 (third - 1),
                           centre := calculate_zone_stats frame third (2 * third - 1),
                           right := calculate_zone_stats frame (2 * third) (int SENSOR_WIDTH - 1),
                           tyre_width := 0, confidence := 0, lateral_gradient := 0 \<rparr>))
         else (let (l0, r0) = grow_region cfg smoothed median_temp mad_global;
                   (l1, r1) = apply_geometry_constraints cfg l0 r0;
                   (l2, r2) = apply_temporal_constraints cfg st1 l1 r1;
                   ((l3, r3), st2) = apply_persistence cfg st1 l2 r2
               in (1, st2, analyze_tyre cfg frame smoothed l3 r3 result)))"

subsection \<open>The early variant (thermal\_algorithm.h, thermal\_algorithm.c)\<close>

text \<open>
  The structures of \<^verbatim>\<open>thermal_algorithm.h\<close> are shared with the output code, which must
  cope with non-finite values; they are therefore parametric in the type \<open>'f\<close> of a
  \<^verbatim>\<open>float\<close> field: \<^typ>\<open>real\<close> inside the algorithm, \<open>cfloat\<close> at the output boundary.
\<close>

record ThermalConfig =
  mad_threshold :: real
  grad_threshold :: real
  tc_min_tyre_width :: "8 word"
  tc_max_tyre_width :: "8 word"
  tc_ema_alpha :: real

record 'f TyreDetection =
  td_span_start :: "8 word"
  td_span_end :: "8 word"
  td_tyre_width :: "8 word"
  td_confidence :: 'f
  td_detected :: bool

record 'f ZoneAnalysis =
  za_avg :: 'f
  za_median :: 'f
  za_mad :: 'f
  za_min :: 'f
  za_max :: 'f
  za_range :: 'f
  za_count :: "16 word"

record 'f FrameData =
  fd_frame_number :: "32 word"
  fd_left :: "'f ZoneAnalysis"
  fd_centre :: "'f ZoneAnalysis"
  fd_right :: "'f ZoneAnalysis"
  fd_detection :: "'f TyreDetection"
  fd_lateral_gradient :: 'f
  fd_warnings :: "8 word"

definition zone_analysis_zero :: "real ZoneAnalysis" where
  "zone_analysis_zero = \<lparr> za_avg = 0, za_median = 0, za_mad = 0, za_min = 0, za_max = 0,
     za_range = 0, za_count = 0 \<rparr>"

text \<open>\<^verbatim>\<open>thermal_algorithm_init\<close> fills the configuration and resets the frame counter.\<close>

definition thermal_algorithm_init :: "ThermalConfig \<times> 32 word" where
  "thermal_algorithm_init =
     (\<lparr> mad_threshold = 3, grad_threshold = 5, tc_min_tyre_width = 6, tc_max_tyre_width = 28,
        tc_ema_alpha = 0.3 \<rparr>, 0)"

definition fast_mean :: "real list \<Rightarrow> nat \<Rightarrow> real" where
  "fast_mean data len =
     (if len = 0 then 0 else fold (\<lambda>i s. s + data ! i) [0..<len] 0 / real len)"

text \<open>
  \<^verbatim>\<open>fast_median\<close> sorts its argument in place with \<^verbatim>\<open>qsort\<close>; the model returns
  the median together with the array as it is left.
\<close>

definition fast_median :: "real list \<Rightarrow> nat \<Rightarrow> real \<times> real list" where
  "fast_median data len =
     (if len = 0 then (0, data)
      else if len = 1 then (data ! 0, data)
      else (let s = sort (take len data) @ drop len data
            in (if len mod 2 = 0 then (s ! (len div 2 - 1) + s ! (len div 2)) / 2
                else s ! (len div 2), s)))"

definition fast_mad :: "real list \<Rightarrow> nat \<Rightarrow> real \<Rightarrow> real" where
  "fast_mad data len median =
     (if len < 2 then 0
      else if len > SENSOR_WIDTH then 0
      else (let deviations = map (\<lambda>i. \<bar>data ! i - median\<bar>) [0..<len];
                mad = fst (fast_median deviations len)
            in mad * 1.4826))"

definition extract_middle_rows :: "real list \<Rightarrow> real list" where
  "extract_middle_rows frame =
     map (\<lambda>col. (let (sum, count) =
                       fold (\<lambda>row (sum, count).
                               (let idx = row * SENSOR_WIDTH + col
                                in if frame ! idx > - 270 then (sum + frame ! idx, count + 1)
                                   else (sum, count)))
                            [10..<14] (0, 0::nat)
                 in if count > 0 then sum / real count else 0))
         [0..<SENSOR_WIDTH]"

function span_left :: "real list \<Rightarrow> real \<Rightarrow> int \<Rightarrow> int \<Rightarrow> int" where
  "span_left profile threshold i start =
     (if i \<ge> 0
      then (if profile ! nat i > threshold then span_left profile threshold (i - 1) i else start)
      else start)"
  by pat_completeness auto
termination
  by (relation "measure (\<lambda>(profile, threshold, i, start). nat (i + 1))") auto

function span_right :: "real list \<Rightarrow> real \<Rightarrow> int \<Rightarrow> int \<Rightarrow> int" where
  "span_right profile threshold i end0 =
     (if i < int SENSOR_WIDTH
      then (if profile ! nat i > threshold then span_right profile threshold (i + 1) i else end0)
      else end0)"
  by pat_completeness auto
termination
  by (relation "measure (\<lambda>(profile, threshold, i, end0). nat (int SENSOR_WIDTH - i))") auto

declare span_left.simps [simp del]
declare span_right.simps [simp del]

definition hottest_seed :: "real list \<Rightarrow> int" where
  "hottest_seed profile =
     snd (fold (\<lambda>i (max_temp, seed_idx).
                  if profile ! i > max_temp then (profile ! i, int i) else (max_temp, seed_idx))
               [0..<SENSOR_WIDTH] (- 300, int SENSOR_WIDTH sdiv 2))"

definition detect_tyre_span :: "real list \<Rightarrow> ThermalConfig \<Rightarrow> real TyreDetection" where
  "detect_tyre_span profile cfg =
     (let profile_median = fst (fast_median profile SENSOR_WIDTH);
          profile_mad = fast_mad profile SENSOR_WIDTH profile_median;
          seed_idx = hottest_seed profile;
          threshold = profile_median + mad_threshold cfg * profile_mad;
          start = span_left profile threshold (seed_idx - 1) seed_idx;
          end0 = span_right profile threshold (seed_idx + 1) seed_idx;
          width = end0 - start + 1;
          det = (width \<ge> uint (tc_min_tyre_width cfg) \<and> width \<le> uint (tc_max_tyre_width cfg)
                 \<and> profile_mad > 0.5)
      in if det
         then (let width_score = (if width \<ge> 8 \<and> width \<le> 24 then 1 else 0.7);
                   mad_score = min (profile_mad / 3) 1
               in \<lparr> td_span_start = word_of_int start, td_span_end = word_of_int end0,
                    td_tyre_width = word_of_int width,
                    td_confidence = width_score * mad_score, td_detected = True \<rparr>)
         else \<lparr> td_span_start = 0, td_span_end = word_of_int (int SENSOR_WIDTH - 1),
                td_tyre_width = word_of_int (int SENSOR_WIDTH),
                td_confidence = 0, td_detected = False \<rparr>)"

definition analyze_zone :: "real list \<Rightarrow> int \<Rightarrow> int \<Rightarrow> real ZoneAnalysis" where
  "analyze_zone profile start0 end0 =
     (let start = (if start0 < 0 then 0 else start0);
          end1 = (if end0 \<ge> int SENSOR_WIDTH then int SENSOR_WIDTH - 1 else end0);
          len = end1 - start + 1
      in if len \<le> 0 \<or> len > int SENSOR_WIDTH then zone_analysis_zero
         else (let zone_data = map (\<lambda>i. profile ! (nat start + i)) [0..<nat len];
                   avg = fast_mean zone_data (nat len);
                   (median, zone_data) = fast_median zone_data (nat len);
                   mad = fast_mad zone_data (nat len) median;
                   (mn, mx) = fold (\<lambda>i (mn, mx).
                                      (if zone_data ! i < mn then zone_data ! i else mn,
                                       if zone_data ! i > mx then zone_data ! i else mx))
                                   [1..<nat len] (zone_data ! 0, zone_data ! 0)
               in \<lparr> za_avg = avg, za_median = median, za_mad = mad, za_min = mn, za_max = mx,
                    za_range = mx - mn, za_count = word_of_int len \<rparr>))"

text \<open>
  \<^verbatim>\<open>thermal_algorithm_process\<close> takes the static frame counter and returns it
  incremented together with the result, every field of which it writes.
\<close>

definition thermal_algorithm_process :: "32 word \<Rightarrow> real list \<Rightarrow> ThermalConfig
                                         \<Rightarrow> 32 word \<times> real FrameData" where
  "thermal_algorithm_process frame_counter frame cfg =
     (let frame_counter = frame_counter + 1;
          profile = extract_middle_rows frame;
          detection = detect_tyre_span profile cfg
      in if td_detected detection
         then (let tyre_start = uint (td_span_start detection);
                   tyre_end = uint (td_span_end detection);
                   tyre_width = uint (td_tyre_width detection);
                   third = tyre_width sdiv 3;
                   left_start = tyre_start;
                   left_end = tyre_start + third - 1;
                   centre_start = left_end + 1;
                   centre_end = tyre_end - third;
                   right_start = centre_end + 1;
                   right_end = tyre_end;
                   zl = analyze_zone profile left_start left_end;
                   zc = analyze_zone profile centre_start centre_end;
                   zr = analyze_zone profile right_start right_end;
                   gradient = za_avg zr - za_avg zl;
                   w1 = (if \<bar>gradient\<bar> > 10 then 1 else (0::8 word));
                   w2 = (if za_max zc - za_min zc > 20 then w1 OR 2 else w1)
               in (frame_counter,
                   \<lparr> fd_frame_number = frame_counter, fd_left = zl, fd_centre = zc,
                      fd_right = zr, fd_detection = detection, fd_lateral_gradient = gradient,
                      fd_warnings = w2 \<rparr>))
         else (frame_counter,
               \<lparr> fd_frame_number = frame_counter, fd_left = zone_analysis_zero,
                  fd_centre = analyze_zone profile 0 (int SENSOR_WIDTH - 1),
                  fd_right = zone_analysis_zero, fd_detection = detection,
                  fd_lateral_gradient = 0, fd_warnings = 0 \<rparr>))"

subsection \<open>The output boundary (communication.c, i2c\_slave.c)\<close>

text \<open>
  At the output boundary a \<^verbatim>\<open>float\<close> may be non-finite. Arithmetic on finite values is
  exact; infinities and NaN propagate as in IEEE 754. The conversion of a \<^verbatim>\<open>float\<close>
  to an integer type is undefined in C when the truncated value is not representable
  (in particular for infinities and NaN): the model returns \<open>None\<close> there, and a function
  that performs such a conversion returns \<open>None\<close> as a whole.
\<close>

datatype cfloat = Finite real | PosInf | NegInf | NaN

definition isfinite :: "cfloat \<Rightarrow> bool" where
  "isfinite x = (case x of Finite r \<Rightarrow> True | PosInf \<Rightarrow> False | NegInf \<Rightarrow> False | NaN \<Rightarrow> False)"


text \<open>Multiplication and division by a positive constant (\<^verbatim>\<open>10.0f\<close>, \<^verbatim>\<open>100.0f\<close>, \<^verbatim>\<open>8.0f\<close>).\<close>

fun cf_scale :: "cfloat \<Rightarrow> real \<Rightarrow> cfloat" where
  "cf_scale (Finite a) k = Finite (a * k)"
| "cf_scale x k = x"

fun cf_div :: "cfloat \<Rightarrow> real \<Rightarrow> cfloat" where
  "cf_div (Finite a) k = Finite (a / k)"
| "cf_div x k = x"

definition float_to_int16 :: "cfloat \<Rightarrow> 16 word option" where
  "float_to_int16 x =
     (case x of
        Finite r \<Rightarrow> if - 32769 < r \<and> r < 32768 then Some (word_of_int (c_trunc r)) else None
      | PosInf \<Rightarrow> None | NegInf \<Rightarrow> None | NaN \<Rightarrow> None)"










definition temp_to_int16_tenths :: "cfloat \<Rightarrow> 16 word option" where
  "temp_to_int16_tenths temp =
     (if \<not> isfinite temp then Some 0 else float_to_int16 (cf_scale temp 10))"












subsection \<open>Auxiliary definitions for the hot-pixel properties\<close>

text \<open>
  The value that \<^verbatim>\<open>remove_hot_pixels\<close> leaves at index \<open>j\<close>, in terms of the
  original row and of the cleaned row \<open>res\<close> to its left.
\<close>

definition cleaned_value :: "DetectionConfig \<Rightarrow> real list \<Rightarrow> real list \<Rightarrow> nat \<Rightarrow> nat \<Rightarrow> real" where
  "cleaned_value cfg row res j width =
     (if row ! j > brake_temp_threshold cfg
      then (if j = 0 then (if 1 < width then row ! 1 else row ! 0)
            else if j + 1 < width then (res ! (j - 1) + row ! (j + 1)) / 2
            else res ! (j - 1))
      else row ! j)"

text \<open>A row with a saturated pixel at each boundary and one in the interior.\<close>

definition hot_row :: "real list" where
  "hot_row = [200, 30, 190, 40] @ replicate 27 25 @ [185]"

text \<open>A state as left by an earlier frame whose smoothed profile was 10 in every column.\<close>

definition ema_state :: TemporalState where
  "ema_state = temporal_state_init\<lparr>prev_profile := replicate SENSOR_WIDTH 10, has_previous := True\<rparr>"

subsection \<open>Auxiliary definitions for the stabiliser properties\<close>

text \<open>Feeding the same span \<open>n\<close> times to \<^verbatim>\<open>apply_persistence\<close>: the outputs and the final state.\<close>

fun feed_identical :: "DetectionConfig \<Rightarrow> TemporalState \<Rightarrow> int \<Rightarrow> int \<Rightarrow> nat
                       \<Rightarrow> (int \<times> int) list \<times> TemporalState" where
  "feed_identical cfg st l r 0 = ([], st)"
| "feed_identical cfg st l r (Suc n) =
     (let (out, st1) = apply_persistence cfg st l r;
          (outs, st2) = feed_identical cfg st1 l r n
      in (out # outs, st2))"

text \<open>
  The history after two detections of the span \<open>(8, 23)\<close>: both slots hold it and the
  history is full.
\<close>

definition full_history_state :: TemporalState where
  "full_history_state = temporal_state_init\<lparr>prev_detections := [(8, 23), (8, 23)],
     prev_detection_count := 2\<rparr>"

text \<open>
  The bound of claim C3 as it is written: the width after the temporal-continuity clamp
  differs from the width stored in history slot 0 by at most
  \<open>prev_width * max_width_change_ratio\<close>.
\<close>

definition width_change_bounded :: "DetectionConfig \<Rightarrow> TemporalState \<Rightarrow> int \<Rightarrow> int \<Rightarrow> bool" where
  "width_change_bounded cfg st l r =
     (let (l', r') = apply_temporal_constraints cfg st l r;
          prev_width = snd (prev_detections st ! 0) - fst (prev_detections st ! 0) + 1
      in \<bar>real_of_int ((r' - l' + 1) - prev_width)\<bar>
           \<le> real_of_int prev_width * max_width_change_ratio cfg)"

text \<open>A history holding the single detection \<open>(11, 20)\<close>, of width 10.\<close>

definition one_detection_state :: TemporalState where
  "one_detection_state = temporal_state_init\<lparr>prev_detections := [(11, 20), (0, 0)],
     prev_detection_count := 1\<rparr>"

text \<open>
  The adjustment made by \<^verbatim>\<open>apply_temporal_constraints\<close>, written with the previous width
  \<open>p\<close> and the current width \<open>w\<close> as parameters: \<open>s\<close> is the shrink and \<open>e\<close> the expansion.
\<close>

definition temporal_adjust :: "real \<Rightarrow> int \<Rightarrow> int \<Rightarrow> int \<Rightarrow> int \<times> int" where
  "temporal_adjust ratio p l w =
     (let mc = real_of_int p * ratio;
          s = (if real_of_int w > real_of_int p + mc
               then (w - c_trunc (real_of_int p + mc)) sdiv 2 else 0);
          e = (if real_of_int w < real_of_int p - mc
               then (c_trunc (real_of_int p - mc) - w) sdiv 2 else 0);
          l2 = l + s - e;
          r2 = l + w - 1 - s + e
      in (if l2 < 0 then 0 else l2, if r2 \<ge> int SENSOR_WIDTH then int SENSOR_WIDTH - 1 else r2))"

subsection \<open>Auxiliary definitions for the region-grower properties\<close>

text \<open>Column \<open>i\<close> of the profile satisfies the dual criteria of \<^verbatim>\<open>grow_region\<close>.\<close>

definition column_ok :: "DetectionConfig \<Rightarrow> real list \<Rightarrow> real \<Rightarrow> real \<Rightarrow> int \<Rightarrow> bool" where
  "column_ok cfg profile median_temp mad_global i =
     region_ok cfg profile median_temp mad_global (profile ! nat i)"

text \<open>A flat background of 20 degrees with a band of 40 degrees over columns 10 to 21.\<close>

definition band_profile :: "real list" where
  "band_profile = [20, 20, 20, 20, 20, 20, 20, 20, 20, 20,
                   40, 40, 40, 40, 40, 40, 40, 40, 40, 40, 40, 40,
                   20, 20, 20, 20, 20, 20, 20, 20, 20, 20]"

subsection \<open>Auxiliary definitions for the pipeline invariants\<close>

text \<open>A span of sensor columns: \<open>0 \<le> left \<le> right \<le> 31\<close>.\<close>

definition valid_span :: "int \<times> int \<Rightarrow> bool" where
  "valid_span s = (0 \<le> fst s \<and> fst s \<le> snd s \<and> snd s < int SENSOR_WIDTH)"

text \<open>Every stored entry of the two-slot detection history is a span of sensor columns.\<close>

definition history_valid :: "TemporalState \<Rightarrow> bool" where
  "history_valid st =
     (length (prev_detections st) = 2
      \<and> (prev_detection_count st = 0
          \<or> (prev_detection_count st = 1 \<and> valid_span (prev_detections st ! 0))
          \<or> (prev_detection_count st = 2 \<and> valid_span (prev_detections st ! 0)
              \<and> valid_span (prev_detections st ! 1))))"

text \<open>
  What the stabiliser needs of a configuration; the compiled-in \<open>config\<close> satisfies it.
\<close>

definition config_ok :: "DetectionConfig \<Rightarrow> bool" where
  "config_ok cfg =
     (0 \<le> centre_col cfg \<and> centre_col cfg < int SENSOR_WIDTH
      \<and> 1 \<le> max_tyre_width cfg \<and> min_tyre_width cfg \<le> max_tyre_width cfg
      \<and> 0 \<le> max_fail_count cfg
      \<and> 0 \<le> max_width_change_ratio cfg \<and> persistence_frames cfg = 2)"

text \<open>
  The driver loop of \<^verbatim>\<open>main\<close>: the result structure is cleared before each call of
  \<^verbatim>\<open>detect_tyre\<close>, and the temporal state starts from zero.
\<close>

definition process_frame :: "DetectionConfig \<Rightarrow> TemporalState \<Rightarrow> real list
                             \<Rightarrow> int \<times> TemporalState \<times> TyreData" where
  "process_frame cfg st frame = detect_tyre cfg st frame tyre_data_zero"

definition run_frames :: "DetectionConfig \<Rightarrow> real list list \<Rightarrow> TemporalState" where
  "run_frames cfg frames =
     foldl (\<lambda>st frame. fst (snd (process_frame cfg st frame))) temporal_state_init frames"

text \<open>The uniformity gate of \<^verbatim>\<open>detect_tyre\<close>: \<open>mad_global < mad_uniform_threshold\<close>.\<close>

definition uniform_profile :: "DetectionConfig \<Rightarrow> TemporalState \<Rightarrow> real list \<Rightarrow> bool" where
  "uniform_profile cfg st frame =
     (calculate_mad (fst (smooth_profile cfg st frame)) SENSOR_WIDTH < mad_uniform_threshold cfg)"

text \<open>The three stabiliser calls of \<^verbatim>\<open>detect_tyre\<close>, with the span after each stage.\<close>

definition stabiliser :: "DetectionConfig \<Rightarrow> TemporalState \<Rightarrow> int \<Rightarrow> int
                          \<Rightarrow> ((int \<times> int) \<times> (int \<times> int) \<times> (int \<times> int)) \<times> TemporalState" where
  "stabiliser cfg st l0 r0 =
     (let g = apply_geometry_constraints cfg l0 r0;
          t = apply_temporal_constraints cfg st (fst g) (snd g);
          (p, st2) = apply_persistence cfg st (fst t) (snd t)
      in ((g, t, p), st2))"

subsection \<open>Synthetic frames\<close>

text \<open>A frame whose 24 rows are all the given row.\<close>

definition rows_frame :: "real list \<Rightarrow> real list" where
  "rows_frame row = concat (replicate SENSOR_HEIGHT row)"

text \<open>A flat background of 20 degrees with a band of 40 degrees over columns 8 to 23.\<close>

definition wide_row :: "real list" where
  "wide_row = [20, 20, 20, 20, 20, 20, 20, 20,
               40, 40, 40, 40, 40, 40, 40, 40, 40, 40, 40, 40, 40, 40, 40, 40,
               20, 20, 20, 20, 20, 20, 20, 20]"

definition wide_frame :: "real list" where
  "wide_frame = rows_frame wide_row"

text \<open>A frame of constant temperature, 25 degrees in every pixel.\<close>

definition uniform_frame :: "real list" where
  "uniform_frame = rows_frame (replicate SENSOR_WIDTH 25)"

text \<open>
  A gently rising and falling background (20 to 25 degrees) with a band over columns 12
  to 19 that is hotter on its left side, in every row.
\<close>

definition peak_row :: "real list" where
  "peak_row = [20, 20, 21, 21, 22, 22, 23, 23, 24, 24, 25, 25,
               58, 60, 60, 59, 57, 55, 53, 51,
               25, 25, 24, 24, 23, 23, 22, 22, 21, 21, 20, 20]"

definition peak_frame :: "real list" where
  "peak_frame = rows_frame peak_row"

section \<open>Median of short arrays and hot-pixel removal\<close>

lemma clip_count_small: "n \<le> 128 \<Longrightarrow> clip_count n = n"
  by (simp add: clip_count_def SENSOR_WIDTH_def MIDDLE_ROWS_def)

lemma calculate_median_1: "calculate_median (a # xs) (Suc 0) = a"
  by (simp add: calculate_median_def clip_count_small quick_select_median_def)

lemma sort_outer_2: "sort_outer [a, b] 0 2 = (if a > b then [b, a] else [a, b])"
  by (simp add: sort_outer.simps sort_inner.simps swap_float_def)

lemma calculate_median_2: "calculate_median [a, b] 2 = (a + b) / 2"
  by (simp add: calculate_median_def clip_count_small quick_select_median_def sort_outer_2)

lemma calculate_median_2': "calculate_median [a, b] (Suc (Suc 0)) = (a + b) / 2"
  using calculate_median_2 [of a b] by (simp add: numeral_2_eq_2)

lemma remove_from_length:
  "length (remove_hot_pixels_from cfg row i width) = length row"
  by (induction cfg row i width rule: remove_hot_pixels_from.induct)
     (subst remove_hot_pixels_from.simps, simp add: Let_def)

lemma remove_from_before:
  "j < i \<Longrightarrow> remove_hot_pixels_from cfg row i width ! j = row ! j"
proof (induction cfg row i width rule: remove_hot_pixels_from.induct)
  case (1 cfg row i width)
  show ?case
    using 1 by (subst remove_hot_pixels_from.simps) (simp add: Let_def)
qed

lemma update_hd_nth: "row \<noteq> [] \<Longrightarrow> row[0 := v] ! 0 = v"
  by (cases row) simp_all

lemma remove_from_step:
  assumes "i < width" and "width \<le> length row"
  shows "remove_hot_pixels_from cfg row i width ! i = cleaned_value cfg row row i width"
proof -
  have "i < length row" and "row \<noteq> []" using assms by auto
  then show ?thesis
    using assms
    by (subst remove_hot_pixels_from.simps)
       (auto simp: Let_def remove_from_before cleaned_value_def calculate_median_1
          calculate_median_2' update_hd_nth)
qed

lemma remove_from_unfold:
  assumes "i < width"
  shows "\<exists>v. remove_hot_pixels_from cfg row i width
              = remove_hot_pixels_from cfg (row[i := v]) (Suc i) width"
proof (cases "remove_hot_pixels_from cfg row i width = remove_hot_pixels_from cfg row (Suc i) width")
  case True
  then have "remove_hot_pixels_from cfg row i width
              = remove_hot_pixels_from cfg (row[i := row ! i]) (Suc i) width"
    by simp
  then show ?thesis ..
next
  case False
  then show ?thesis
    using assms by (subst (asm) remove_hot_pixels_from.simps, subst remove_hot_pixels_from.simps)
      (auto simp: Let_def split: if_splits)
qed

lemma remove_from_at:
  "i \<le> j \<Longrightarrow> j < width \<Longrightarrow> width \<le> length row \<Longrightarrow>
   remove_hot_pixels_from cfg row i width ! j
     = cleaned_value cfg row (remove_hot_pixels_from cfg row i width) j width"
proof (induction "width - i" arbitrary: i row)
  case 0
  then show ?case by simp
next
  case (Suc n)
  let ?R = "remove_hot_pixels_from cfg row i width"
  have iw: "i < width" using Suc.prems by simp
  show ?case
  proof (cases "j = i")
    case True
    have "?R ! i = cleaned_value cfg row row i width"
      using iw Suc.prems(3) by (rule remove_from_step)
    moreover have "i > 0 \<Longrightarrow> ?R ! (i - 1) = row ! (i - 1)"
      by (simp add: remove_from_before)
    ultimately show ?thesis
      using True by (auto simp: cleaned_value_def)
  next
    case False
    then have ij: "Suc i \<le> j" using Suc.prems(1) by simp
    obtain v where Rv: "?R = remove_hot_pixels_from cfg (row[i := v]) (Suc i) width"
      using remove_from_unfold [OF iw, of cfg row] by blast
    define row' where "row' = row[i := v]"
    have R: "?R = remove_hot_pixels_from cfg row' (Suc i) width"
      and len: "length row' = length row" and same: "\<And>k. k \<noteq> i \<Longrightarrow> row' ! k = row ! k"
      using Rv by (simp_all add: row'_def)
    have n: "n = width - Suc i" using Suc.hyps(2) by simp
    have "remove_hot_pixels_from cfg row' (Suc i) width ! j
           = cleaned_value cfg row' (remove_hot_pixels_from cfg row' (Suc i) width) j width"
      using Suc.hyps(1) [OF n ij Suc.prems(2)] Suc.prems(3) len by simp
    moreover have "cleaned_value cfg row' ?R j width = cleaned_value cfg row ?R j width"
      using ij same by (simp add: cleaned_value_def)
    ultimately show ?thesis by (simp add: R)
  qed
qed

text \<open>
  Claim C7. In a row of the middle band, a pixel that does not exceed the hot-pixel
  threshold is left unchanged; a pixel above the threshold whose two neighbours are not
  above it is replaced by the median of the two neighbours, which is their mean; a
  pixel above the threshold at the left boundary is replaced by its right neighbour, and
  one at the right boundary by its (already cleaned) left neighbour.
\<close>

theorem remove_hot_pixels_spec:
  assumes "width \<le> length row" and "2 \<le> width" and "j < width"
  shows "(row ! j \<le> brake_temp_threshold cfg \<longrightarrow> remove_hot_pixels cfg row width ! j = row ! j)
       \<and> (0 < j \<and> j + 1 < width \<and> brake_temp_threshold cfg < row ! j
            \<and> row ! (j - 1) \<le> brake_temp_threshold cfg \<and> row ! (j + 1) \<le> brake_temp_threshold cfg
          \<longrightarrow> remove_hot_pixels cfg row width ! j = calculate_median [row ! (j - 1), row ! (j + 1)] 2
            \<and> remove_hot_pixels cfg row width ! j = (row ! (j - 1) + row ! (j + 1)) / 2)
       \<and> (j = 0 \<and> brake_temp_threshold cfg < row ! j
          \<longrightarrow> remove_hot_pixels cfg row width ! j = row ! 1)
       \<and> (j = width - 1 \<and> brake_temp_threshold cfg < row ! j
          \<longrightarrow> remove_hot_pixels cfg row width ! j = remove_hot_pixels cfg row width ! (j - 1)
            \<and> (row ! (j - 1) \<le> brake_temp_threshold cfg
                 \<longrightarrow> remove_hot_pixels cfg row width ! j = row ! (j - 1)))"
proof -
  let ?R = "remove_hot_pixels cfg row width"
  have at: "\<And>k. k < width \<Longrightarrow> ?R ! k = cleaned_value cfg row ?R k width"
    unfolding remove_hot_pixels_def using assms(1) by (intro remove_from_at) simp_all
  have cold: "\<And>k. k < width \<Longrightarrow> row ! k \<le> brake_temp_threshold cfg \<Longrightarrow> ?R ! k = row ! k"
    using at by (simp add: cleaned_value_def)
  have c1: "row ! j \<le> brake_temp_threshold cfg \<longrightarrow> ?R ! j = row ! j"
    using cold assms(3) by simp
  have c2: "0 < j \<and> j + 1 < width \<and> brake_temp_threshold cfg < row ! j
            \<and> row ! (j - 1) \<le> brake_temp_threshold cfg \<and> row ! (j + 1) \<le> brake_temp_threshold cfg
          \<longrightarrow> ?R ! j = calculate_median [row ! (j - 1), row ! (j + 1)] 2
            \<and> ?R ! j = (row ! (j - 1) + row ! (j + 1)) / 2"
  proof (intro impI, elim conjE)
    assume h: "0 < j" "j + 1 < width" "brake_temp_threshold cfg < row ! j"
      "row ! (j - 1) \<le> brake_temp_threshold cfg" "row ! (j + 1) \<le> brake_temp_threshold cfg"
    have "?R ! (j - 1) = row ! (j - 1)"
      using cold [of "j - 1"] h assms(3) by simp
    then have "?R ! j = (row ! (j - 1) + row ! (j + 1)) / 2"
      using at [OF assms(3)] h by (simp add: cleaned_value_def)
    then show "?R ! j = calculate_median [row ! (j - 1), row ! (j + 1)] 2
            \<and> ?R ! j = (row ! (j - 1) + row ! (j + 1)) / 2"
      by (simp add: calculate_median_2)
  qed
  have c3: "j = 0 \<and> brake_temp_threshold cfg < row ! j \<longrightarrow> ?R ! j = row ! 1"
    using at [OF assms(3)] assms(2) by (auto simp: cleaned_value_def)
  have c4: "j = width - 1 \<and> brake_temp_threshold cfg < row ! j
          \<longrightarrow> ?R ! j = ?R ! (j - 1)
            \<and> (row ! (j - 1) \<le> brake_temp_threshold cfg \<longrightarrow> ?R ! j = row ! (j - 1))"
  proof (intro impI, elim conjE)
    assume h: "j = width - 1" "brake_temp_threshold cfg < row ! j"
    have j0: "0 < j" "\<not> j + 1 < width" using h(1) assms(2) by simp_all
    have "?R ! j = ?R ! (j - 1)"
      using at [OF assms(3)] h j0 by (simp add: cleaned_value_def)
    moreover have "row ! (j - 1) \<le> brake_temp_threshold cfg \<longrightarrow> ?R ! (j - 1) = row ! (j - 1)"
      using cold [of "j - 1"] assms(3) by simp
    ultimately show "?R ! j = ?R ! (j - 1)
            \<and> (row ! (j - 1) \<le> brake_temp_threshold cfg \<longrightarrow> ?R ! j = row ! (j - 1))"
      by simp
  qed
  show ?thesis using c1 c2 c3 c4 by blast
qed

theorem remove_hot_pixels_spec_witness:
  "length hot_row = 32
   \<and> remove_hot_pixels config hot_row 32 ! 1 = 30
   \<and> remove_hot_pixels config hot_row 32 ! 2 = 35
   \<and> remove_hot_pixels config hot_row 32 ! 0 = 30
   \<and> remove_hot_pixels config hot_row 32 ! 31 = 25"
proof -
  have len: "32 \<le> length hot_row" "(2::nat) \<le> 32" by (simp_all add: hot_row_def)
  have v: "hot_row ! 0 = 200" "hot_row ! Suc 0 = 30" "hot_row ! 2 = 190" "hot_row ! 3 = 40"
    "hot_row ! 30 = 25" "hot_row ! 31 = 185"
    by (simp_all add: hot_row_def nth_append)
  have thr: "brake_temp_threshold config = 180" by (simp add: config_def)
  have l32: "length hot_row = 32" by (simp add: hot_row_def)
  show ?thesis
    using remove_hot_pixels_spec [OF len, of 1 config]
      remove_hot_pixels_spec [OF len, of 2 config]
      remove_hot_pixels_spec [OF len, of 0 config]
      remove_hot_pixels_spec [OF len, of 31 config]
    by (simp add: v thr l32)
qed

section \<open>The temporal filter\<close>

lemma ema_loop_length:
  "length (fst (ema_loop cfg current i n (obuf, prev))) = length obuf
   \<and> length (snd (ema_loop cfg current i n (obuf, prev))) = length prev"
proof (induction "n - i" arbitrary: i obuf prev)
  case 0
  then show ?case by (subst (1 2) ema_loop.simps) simp
next
  case (Suc m)
  then have "m = n - Suc i" and "i < n" by simp_all
  then show ?case
    using Suc.hyps(1) [of "Suc i"] by (subst (1 2) ema_loop.simps) (simp add: Let_def)
qed

lemma ema_loop_nth:
  assumes "j < length obuf" and "j < length prev"
  shows "fst (ema_loop cfg current i n (obuf, prev)) ! j
           = (if i \<le> j \<and> j < n
              then ema_alpha cfg * current ! j + (1 - ema_alpha cfg) * prev ! j
              else obuf ! j)
       \<and> snd (ema_loop cfg current i n (obuf, prev)) ! j
           = (if i \<le> j \<and> j < n
              then ema_alpha cfg * current ! j + (1 - ema_alpha cfg) * prev ! j
              else prev ! j)"
  using assms
proof (induction "n - i" arbitrary: i obuf prev)
  case 0
  then show ?case by (subst (1 2) ema_loop.simps) simp
next
  case (Suc m)
  then have m: "m = n - Suc i" and "i < n" by simp_all
  let ?v = "ema_alpha cfg * current ! i + (1 - ema_alpha cfg) * prev ! i"
  have step: "ema_loop cfg current i n (obuf, prev)
                = ema_loop cfg current (Suc i) n (obuf[i := ?v], prev[i := ?v])"
    using \<open>i < n\<close> by (subst ema_loop.simps) (simp add: Let_def)
  have IH: "fst (ema_loop cfg current (Suc i) n (obuf[i := ?v], prev[i := ?v])) ! j
           = (if Suc i \<le> j \<and> j < n
              then ema_alpha cfg * current ! j + (1 - ema_alpha cfg) * prev[i := ?v] ! j
              else obuf[i := ?v] ! j)
       \<and> snd (ema_loop cfg current (Suc i) n (obuf[i := ?v], prev[i := ?v])) ! j
           = (if Suc i \<le> j \<and> j < n
              then ema_alpha cfg * current ! j + (1 - ema_alpha cfg) * prev[i := ?v] ! j
              else prev[i := ?v] ! j)"
    using Suc.hyps(1) [OF m, of "obuf[i := ?v]" "prev[i := ?v]"] Suc.prems by simp
  show ?case
  proof (cases "j = i")
    case True
    then show ?thesis using IH Suc.prems \<open>i < n\<close> unfolding step by simp
  next
    case False
    then show ?thesis using IH unfolding step by auto
  qed
qed

text \<open>
  Claim C4. With all three arrays 32 columns long: when a previous profile exists, every
  column of the output is \<open>ema_alpha * current + (1 - ema_alpha) * prev_profile\<close>;
  on the first call (\<open>has_previous\<close> false) the output is the current profile; in both
  cases the stored \<open>prev_profile\<close> becomes the output and \<open>has_previous\<close> is set.
\<close>

theorem apply_ema_spec:
  assumes "length current = SENSOR_WIDTH" and "length obuf = SENSOR_WIDTH"
    and "length (prev_profile st) = SENSOR_WIDTH"
  shows "(has_previous st \<longrightarrow>
            (\<forall>i < SENSOR_WIDTH. fst (apply_ema cfg st current obuf SENSOR_WIDTH) ! i
               = ema_alpha cfg * current ! i + (1 - ema_alpha cfg) * prev_profile st ! i))
       \<and> (\<not> has_previous st \<longrightarrow> fst (apply_ema cfg st current obuf SENSOR_WIDTH) = current)
       \<and> prev_profile (snd (apply_ema cfg st current obuf SENSOR_WIDTH))
           = fst (apply_ema cfg st current obuf SENSOR_WIDTH)
       \<and> has_previous (snd (apply_ema cfg st current obuf SENSOR_WIDTH))"
proof (cases "has_previous st")
  case False
  then show ?thesis using assms by (simp add: apply_ema_def memcpy_def)
next
  case True
  let ?n = SENSOR_WIDTH
  let ?L = "ema_loop cfg current 0 ?n (obuf, prev_profile st)"
  have out: "fst (apply_ema cfg st current obuf ?n) = fst ?L"
    and st': "snd (apply_ema cfg st current obuf ?n) = st\<lparr>prev_profile := snd ?L\<rparr>"
    using True by (simp_all add: apply_ema_def split_beta)
  have nth: "\<And>j. j < ?n \<Longrightarrow> fst ?L ! j = ema_alpha cfg * current ! j + (1 - ema_alpha cfg) * prev_profile st ! j"
     "\<And>j. j < ?n \<Longrightarrow> snd ?L ! j = ema_alpha cfg * current ! j + (1 - ema_alpha cfg) * prev_profile st ! j"
    using ema_loop_nth [of _ obuf "prev_profile st" cfg current 0 ?n] assms by simp_all
  have len: "length (fst ?L) = ?n" "length (snd ?L) = ?n"
    using ema_loop_length [of cfg current 0 ?n obuf "prev_profile st"] assms by simp_all
  have "snd ?L = fst ?L"
    by (rule nth_equalityI) (simp_all add: len nth)
  then show ?thesis using True out st' nth by simp
qed

theorem apply_ema_spec_witness:
  "has_previous ema_state
   \<and> fst (apply_ema config ema_state (replicate SENSOR_WIDTH 20) (replicate SENSOR_WIDTH 0) SENSOR_WIDTH) ! 5 = 13
   \<and> \<not> has_previous temporal_state_init
   \<and> fst (apply_ema config temporal_state_init (replicate SENSOR_WIDTH 20) (replicate SENSOR_WIDTH 0) SENSOR_WIDTH)
       = replicate SENSOR_WIDTH 20
   \<and> prev_profile (snd (apply_ema config temporal_state_init (replicate SENSOR_WIDTH 20) (replicate SENSOR_WIDTH 0) SENSOR_WIDTH))
       = replicate SENSOR_WIDTH 20"
proof -
  have a: "length (replicate SENSOR_WIDTH (20::real)) = SENSOR_WIDTH"
    "length (replicate SENSOR_WIDTH (0::real)) = SENSOR_WIDTH"
    "length (prev_profile ema_state) = SENSOR_WIDTH"
    "length (prev_profile temporal_state_init) = SENSOR_WIDTH"
    by (simp_all add: ema_state_def temporal_state_init_def)
  have five: "5 < SENSOR_WIDTH" by (simp add: SENSOR_WIDTH_def)
  show ?thesis
    using apply_ema_spec [OF a(1) a(2) a(3), of config]
      apply_ema_spec [OF a(1) a(2) a(4), of config] five
    by (simp add: ema_state_def temporal_state_init_def config_def)
qed

section \<open>The geometry clamp\<close>

lemma geometry_output_clipped:
  assumes "apply_geometry_constraints cfg l0 r0 = (l, r)"
  shows "0 \<le> l \<and> r < int SENSOR_WIDTH"
  using assms
  by (auto simp: apply_geometry_constraints_def Let_def SENSOR_WIDTH_def split: if_splits prod.splits)

text \<open>
  Claim C6. A span of sensor columns (\<open>0 \<le> l\<close>, \<open>r \<le> 31\<close>) whose width lies between
  \<open>min_tyre_width\<close> and \<open>max_tyre_width\<close> is returned unchanged by the geometry clamp;
  in particular, reapplying the clamp to one of its own results \<open>(l1, r1)\<close> whose width
  satisfies the bounds is a no-op.
\<close>

theorem geometry_clamp_noop:
  "(0 \<le> l \<and> r < int SENSOR_WIDTH
      \<and> min_tyre_width cfg \<le> r - l + 1 \<and> r - l + 1 \<le> max_tyre_width cfg
     \<longrightarrow> apply_geometry_constraints cfg l r = (l, r))
   \<and> (apply_geometry_constraints cfg l0 r0 = (l1, r1)
      \<and> min_tyre_width cfg \<le> r1 - l1 + 1 \<and> r1 - l1 + 1 \<le> max_tyre_width cfg
     \<longrightarrow> apply_geometry_constraints cfg l1 r1 = (l1, r1))"
proof -
  have a: "apply_geometry_constraints cfg a b = (a, b)"
    if "0 \<le> a" "b < int SENSOR_WIDTH" "min_tyre_width cfg \<le> b - a + 1"
      "b - a + 1 \<le> max_tyre_width cfg" for a b
    using that by (simp add: apply_geometry_constraints_def)
  show ?thesis using a geometry_output_clipped by blast
qed

theorem geometry_clamp_noop_witness:
  "apply_geometry_constraints config 10 21 = (10, 21)
   \<and> apply_geometry_constraints config 16 17 = (14, 19)
   \<and> apply_geometry_constraints config 14 19 = (14, 19)"
proof -
  have g: "apply_geometry_constraints config 16 17 = (14, 19)"
    by (simp add: apply_geometry_constraints_def config_def SENSOR_WIDTH_def signed_divide_int_def)
  have h: "(0::int) \<le> 10 \<and> (21::int) < int SENSOR_WIDTH \<and> min_tyre_width config \<le> 21 - 10 + 1
    \<and> 21 - 10 + 1 \<le> max_tyre_width config"
    "min_tyre_width config \<le> 19 - 14 + 1 \<and> 19 - 14 + 1 \<le> max_tyre_width config"
    by (simp_all add: SENSOR_WIDTH_def config_def)
  show ?thesis
    using geometry_clamp_noop [of 10 21 config 16 17 14 19] g h by simp
qed

section \<open>Persistence smoothing\<close>

lemma c_trunc_of_int: "c_trunc (real_of_int k) = k"
  by (simp add: c_trunc_def)

lemma persistence_sums_2:
  "persistence_frames cfg = 2 \<Longrightarrow> prev_detections st = [(a, b), (c, d)] \<Longrightarrow>
   persistence_sums cfg st = (real_of_int a + real_of_int c * 4, real_of_int b + real_of_int d * 4, 5)"
  by (simp add: persistence_sums_def upto.simps)

lemma persistence_full_identical:
  assumes "persistence_frames cfg = 2" and "prev_detection_count st = 2"
    and "prev_detections st = [(l, r), (l, r)]"
  shows "apply_persistence cfg st l r = ((l, r), st)"
proof -
  have "(real_of_int l + real_of_int l * 4 + real_of_int l * 9) / 14 = real_of_int l"
    "(real_of_int r + real_of_int r * 4 + real_of_int r * 9) / 14 = real_of_int r"
    by simp_all
  then show ?thesis
    using assms by (simp add: apply_persistence_def persistence_sums_2 c_trunc_of_int)
qed

lemma feed_identical_full:
  assumes "persistence_frames cfg = 2" and "prev_detection_count st = 2"
    and "prev_detections st = [(l, r), (l, r)]"
  shows "feed_identical cfg st l r n = (replicate n (l, r), st)"
  by (induction n) (simp_all add: persistence_full_identical [OF assms])


lemma full_history_step:
  "apply_persistence config full_history_state 9 24 = ((8, 23), full_history_state)"
proof -
  have p: "persistence_frames config = 2" by (simp add: config_def)
  have d: "prev_detections full_history_state = [(8, 23), (8, 23)]"
    by (simp add: full_history_state_def)
  show ?thesis
    by (simp add: apply_persistence_def p persistence_sums_2 [OF p d] Let_def c_trunc_def)
       (simp add: full_history_state_def)
qed

lemma full_history_reached:
  "snd (feed_identical config temporal_state_init 8 23 2) = full_history_state"
  by (simp add: eval_nat_numeral apply_persistence_def config_def temporal_state_init_def
        full_history_state_def Let_def)

text \<open>
  Claim C5 fails as stated, because the average is taken over the history and not over
  the inputs. Two detections of \<open>(8, 23)\<close> from start-up fill the history with that span.
  Feeding \<open>(9, 24)\<close> three times (\<open>persistence_frames + 1\<close>) then returns \<open>(8, 23)\<close> each
  time and never the input: the weighted averages \<open>(8 + 4 * 8 + 9 * 9) / 14 = 8.64\<close> and
  \<open>(23 + 4 * 23 + 9 * 24) / 14 = 23.64\<close> are truncated to \<open>8\<close> and \<open>23\<close>, and it is this
  smoothed span, not the input, that is pushed into the history, which is therefore
  unchanged.
\<close>

theorem persistence_counterexample:
  "snd (feed_identical config temporal_state_init 8 23 2) = full_history_state
   \<and> int 3 \<ge> persistence_frames config + 1
   \<and> fst (feed_identical config full_history_state 9 24 3) = [(8, 23), (8, 23), (8, 23)]
   \<and> last (fst (feed_identical config full_history_state 9 24 3)) \<noteq> (9, 24)
   \<and> snd (feed_identical config full_history_state 9 24 3) = full_history_state"
proof -
  have s: "feed_identical config full_history_state 9 24 3
             = ([(8, 23), (8, 23), (8, 23)], full_history_state)"
    by (simp add: eval_nat_numeral full_history_step)
  have p: "int 3 \<ge> persistence_frames config + 1" by (simp add: config_def)
  show ?thesis using s p full_history_reached by simp
qed

text \<open>
  Claim C5, amended: the property holds from an empty detection history, as at start-up.
  With \<open>persistence_frames = 2\<close> (the shipped configuration) and
  \<open>prev_detection_count = 0\<close>, feeding the same span of sensor columns
  \<open>N \<ge> persistence_frames + 1\<close> times returns that span every time: the first two calls
  store it unchanged, and from the third call on the weighted average
  \<open>(1 * x + 4 * x + 9 * x) / 14\<close>, truncated, is \<open>x\<close> again. The history then holds the
  span in both slots.
\<close>

theorem persistence_identical_spans:
  assumes "persistence_frames cfg = 2" and "prev_detection_count st = 0"
    and "length (prev_detections st) = 2"
    and "0 \<le> l" and "l \<le> r" and "r < int SENSOR_WIDTH"
    and "int N \<ge> persistence_frames cfg + 1"
  shows "fst (feed_identical cfg st l r N) = replicate N (l, r)
       \<and> last (fst (feed_identical cfg st l r N)) = (l, r)
       \<and> prev_detections (snd (feed_identical cfg st l r N)) = [(l, r), (l, r)]"
proof -
  obtain x y where xy: "prev_detections st = [x, y]"
    using assms(3) by (cases "prev_detections st"; cases "tl (prev_detections st)") auto
  obtain M where N: "N = Suc (Suc M)"
    using assms(1,7) by (cases N; cases "N - 1") auto
  define st1 where "st1 = st\<lparr>prev_detections := [(l, r), y], prev_detection_count := 1\<rparr>"
  define st2 where "st2 = st1\<lparr>prev_detections := [(l, r), (l, r)], prev_detection_count := 2\<rparr>"
  have s1: "apply_persistence cfg st l r = ((l, r), st1)"
    using assms(1,2) xy by (simp add: apply_persistence_def st1_def)
  have s2: "apply_persistence cfg st1 l r = ((l, r), st2)"
    using assms(1) by (simp add: apply_persistence_def st1_def st2_def)
  have full: "feed_identical cfg st2 l r M = (replicate M (l, r), st2)"
    using assms(1) by (intro feed_identical_full) (simp_all add: st2_def st1_def)
  have "feed_identical cfg st l r N = (replicate N (l, r), st2)"
    by (simp add: N s1 s2 full)
  then show ?thesis by (simp add: N st2_def)
qed

theorem persistence_identical_spans_witness:
  "fst (feed_identical config temporal_state_init 11 20 5) = replicate 5 (11, 20)
   \<and> last (fst (feed_identical config temporal_state_init 11 20 5)) = (11, 20)
   \<and> prev_detections (snd (feed_identical config temporal_state_init 11 20 5)) = [(11, 20), (11, 20)]"
proof -
  have h: "persistence_frames config = 2" "prev_detection_count temporal_state_init = 0"
    "length (prev_detections temporal_state_init) = 2" "(0::int) \<le> 11" "(11::int) \<le> 20"
    "(20::int) < int SENSOR_WIDTH" "int 5 \<ge> persistence_frames config + 1"
    by (simp_all add: config_def temporal_state_init_def SENSOR_WIDTH_def)
  show ?thesis using persistence_identical_spans [OF h] .
qed

section \<open>The temporal-continuity clamp\<close>

lemma sdiv_nonneg: "0 \<le> a \<Longrightarrow> a sdiv 2 = a div 2" for a :: int
  by (simp add: signed_divide_int_def sgn_if)

lemma c_trunc_floor: "0 \<le> x \<Longrightarrow> c_trunc x = \<lfloor>x\<rfloor>"
  by (simp add: c_trunc_def)

text \<open>
  Claim C3 fails as stated. With the single stored detection \<open>(11, 20)\<close> (width 10,
  bound \<open>10 * 0.3 = 3\<close>) and the current span \<open>(9, 22)\<close> (width 14), the target width is 13
  and the shrink is \<open>(14 - 13) / 2 = 0\<close> in integer arithmetic: the span is returned
  unchanged and the width differs from the previous one by 4.
\<close>

theorem temporal_clamp_counterexample:
  "prev_detection_count one_detection_state = 1
   \<and> apply_temporal_constraints config one_detection_state 9 22 = (9, 22)
   \<and> \<not> width_change_bounded config one_detection_state 9 22"
  by (simp add: width_change_bounded_def apply_temporal_constraints_def one_detection_state_def
        config_def c_trunc_def SENSOR_WIDTH_def signed_divide_int_def)

lemma apply_temporal_adjust:
  assumes "prev_detection_count st \<noteq> 0" and "prev_detections st ! 0 = (pl, pr)"
  shows "apply_temporal_constraints cfg st l r
           = temporal_adjust (max_width_change_ratio cfg) (pr - pl + 1) l (r - l + 1)"
  using assms by (simp add: apply_temporal_constraints_def temporal_adjust_def Let_def)

lemma temporal_adjust_bound:
  assumes p1: "1 \<le> p" and ratio: "0 \<le> ratio"
    and span: "0 \<le> l" "1 \<le> w" "l + w \<le> int SENSOR_WIDTH"
    and res: "temporal_adjust ratio p l w = (l', r')"
  shows "real_of_int (r' - l' + 1) \<le> real_of_int p + real_of_int p * ratio + 1"
    and "l' = 0 \<or> r' = int SENSOR_WIDTH - 1
           \<or> real_of_int p - real_of_int p * ratio - 2 < real_of_int (r' - l' + 1)"
    and "\<bar>real_of_int (w - p)\<bar> \<le> real_of_int p * ratio \<Longrightarrow> (l', r') = (l, l + w - 1)"
    and "0 \<le> l' \<and> l' \<le> r' \<and> r' < int SENSOR_WIDTH"
proof -
  define mc where "mc = real_of_int p * ratio"
  have mc0: "0 \<le> mc" using p1 ratio by (simp add: mc_def)
  consider (grow) "real_of_int w > real_of_int p + mc"
    | (shrink) "real_of_int w < real_of_int p - mc"
    | (keep) "\<not> real_of_int w > real_of_int p + mc" "\<not> real_of_int w < real_of_int p - mc"
    by blast
  then have "real_of_int (r' - l' + 1) \<le> real_of_int p + mc + 1
    \<and> (l' = 0 \<or> r' = int SENSOR_WIDTH - 1 \<or> real_of_int p - mc - 2 < real_of_int (r' - l' + 1))
    \<and> (\<bar>real_of_int (w - p)\<bar> \<le> mc \<longrightarrow> (l', r') = (l, l + w - 1))
    \<and> 0 \<le> l' \<and> l' \<le> r' \<and> r' < int SENSOR_WIDTH"
  proof cases
    case grow
    define t where "t = \<lfloor>real_of_int p + mc\<rfloor>"
    have tw: "t < w" unfolding t_def floor_less_iff using grow .
    have tle: "real_of_int t \<le> real_of_int p + mc" unfolding t_def by (rule of_int_floor_le)
    have tp: "p \<le> t" unfolding t_def le_floor_iff using mc0 by simp
    define s where "s = (w - t) div 2"
    have s0: "0 \<le> s" using tw by (simp add: s_def)
    have ng: "\<not> real_of_int w < real_of_int p - mc" using grow mc0 by simp
    have pm: "0 \<le> real_of_int p + mc" using p1 mc0 by simp
    have "temporal_adjust ratio p l w = (l + s, l + w - 1 - s)"
      using grow ng span s0 tw pm
      by (simp add: temporal_adjust_def Let_def mc_def [symmetric] c_trunc_floor t_def [symmetric]
            sdiv_nonneg s_def [symmetric] SENSOR_WIDTH_def)
    then have lr: "l' = l + s" "r' = l + w - 1 - s" using res by simp_all
    have wd: "r' - l' + 1 = w - 2 * s" by (simp add: lr)
    have sb: "w - 2 * s \<le> t + 1" "t \<le> w - 2 * s" unfolding s_def by presburger+
    have b: "r' - l' + 1 \<le> t + 1" "p \<le> r' - l' + 1" using wd sb tp by simp_all
    have "real_of_int (r' - l' + 1) \<le> real_of_int (t + 1)" using b(1) by (simp only: of_int_le_iff)
    then have u: "real_of_int (r' - l' + 1) \<le> real_of_int p + mc + 1" using tle by simp
    have "real_of_int p \<le> real_of_int (r' - l' + 1)" using b(2) by (simp only: of_int_le_iff)
    then have lo: "real_of_int p - mc - 2 < real_of_int (r' - l' + 1)" using mc0 by simp
    have abs: "\<not> \<bar>real_of_int (w - p)\<bar> \<le> mc" using grow by simp
    have rng: "0 \<le> l' \<and> l' \<le> r' \<and> r' < int SENSOR_WIDTH"
      using lr s0 span b(2) p1 by simp
    show ?thesis using u lo abs rng by blast
  next
    case shrink
    define t where "t = \<lfloor>real_of_int p - mc\<rfloor>"
    have wt: "w \<le> t" unfolding t_def le_floor_iff using shrink by simp
    have tle: "real_of_int t \<le> real_of_int p - mc" unfolding t_def by (rule of_int_floor_le)
    have tgt: "real_of_int p - mc - 1 < real_of_int t" unfolding t_def by linarith
    define e where "e = (t - w) div 2"
    have e0: "0 \<le> e" using wt by (simp add: e_def)
    have ng: "\<not> real_of_int w > real_of_int p + mc" using shrink mc0 by simp
    have pm: "0 \<le> real_of_int p - mc" using shrink span(2) by simp
    have eq: "temporal_adjust ratio p l w
            = (if l - e < 0 then 0 else l - e,
               if l + w - 1 + e \<ge> int SENSOR_WIDTH then int SENSOR_WIDTH - 1 else l + w - 1 + e)"
      using shrink ng e0 wt pm
      by (simp add: temporal_adjust_def Let_def mc_def [symmetric] c_trunc_floor t_def [symmetric]
            sdiv_nonneg e_def [symmetric])
    have lr: "l' = (if l - e < 0 then 0 else l - e)"
      "r' = (if l + w - 1 + e \<ge> int SENSOR_WIDTH then int SENSOR_WIDTH - 1 else l + w - 1 + e)"
      using eq res by simp_all
    have eb: "w + 2 * e \<le> t" "t - 1 \<le> w + 2 * e" unfolding e_def by presburger+
    have up: "r' - l' + 1 \<le> t" using lr e0 eb(1) span by (auto split: if_splits)
    have "real_of_int (r' - l' + 1) \<le> real_of_int t" using up by (simp only: of_int_le_iff)
    then have u: "real_of_int (r' - l' + 1) \<le> real_of_int p + mc + 1" using tle mc0 by simp
    have lo: "l' = 0 \<or> r' = int SENSOR_WIDTH - 1 \<or> real_of_int p - mc - 2 < real_of_int (r' - l' + 1)"
    proof (cases "l - e < 0 \<or> l + w - 1 + e \<ge> int SENSOR_WIDTH")
      case True
      then show ?thesis using lr by auto
    next
      case False
      then have "r' - l' + 1 = w + 2 * e" using lr by simp
      then have "t - 1 \<le> r' - l' + 1" using eb(2) by simp
      then have "real_of_int (t - 1) \<le> real_of_int (r' - l' + 1)" by (simp only: of_int_le_iff)
      then show ?thesis using tgt by simp
    qed
    have abs: "\<not> \<bar>real_of_int (w - p)\<bar> \<le> mc" using shrink by simp
    have rng: "0 \<le> l' \<and> l' \<le> r' \<and> r' < int SENSOR_WIDTH"
      using lr e0 span by (auto simp: SENSOR_WIDTH_def split: if_splits)
    show ?thesis using u lo abs rng by blast
  next
    case keep
    have "temporal_adjust ratio p l w = (l, l + w - 1)"
      using keep span by (simp add: temporal_adjust_def Let_def mc_def [symmetric])
    then have lr: "l' = l" "r' = l + w - 1" using res by simp_all
    have "real_of_int (r' - l' + 1) = real_of_int w" by (simp add: lr)
    then show ?thesis using keep lr span mc0 by auto
  qed
  then show "real_of_int (r' - l' + 1) \<le> real_of_int p + real_of_int p * ratio + 1"
    and "l' = 0 \<or> r' = int SENSOR_WIDTH - 1
           \<or> real_of_int p - real_of_int p * ratio - 2 < real_of_int (r' - l' + 1)"
    and "\<bar>real_of_int (w - p)\<bar> \<le> real_of_int p * ratio \<Longrightarrow> (l', r') = (l, l + w - 1)"
    and "0 \<le> l' \<and> l' \<le> r' \<and> r' < int SENSOR_WIDTH"
    by (simp_all add: mc_def)
qed


text \<open>
  Claim C3, amended. Let \<open>p\<close> be the width stored in history slot 0 and
  \<open>m = p * max_width_change_ratio\<close>. For a span of sensor columns, the width after the
  temporal-continuity clamp is at most \<open>p + m + 1\<close>; it is greater than \<open>p - m - 2\<close> unless
  the clamped span touches column 0 or column 31; and a span whose width is within \<open>m\<close>
  of \<open>p\<close> is returned unchanged.
\<close>

theorem temporal_clamp_bound:
  assumes cnt: "prev_detection_count st \<noteq> 0"
    and prev: "prev_detections st ! 0 = (pl, pr)" and pv: "pl \<le> pr"
    and ratio: "0 \<le> max_width_change_ratio cfg"
    and span: "0 \<le> l" "l \<le> r" "r < int SENSOR_WIDTH"
    and res: "apply_temporal_constraints cfg st l r = (l', r')"
  shows "real_of_int (r' - l' + 1)
           \<le> real_of_int (pr - pl + 1) + real_of_int (pr - pl + 1) * max_width_change_ratio cfg + 1
       \<and> (l' = 0 \<or> r' = int SENSOR_WIDTH - 1
           \<or> real_of_int (pr - pl + 1) - real_of_int (pr - pl + 1) * max_width_change_ratio cfg - 2
               < real_of_int (r' - l' + 1))
       \<and> (\<bar>real_of_int ((r - l + 1) - (pr - pl + 1))\<bar>
              \<le> real_of_int (pr - pl + 1) * max_width_change_ratio cfg
            \<longrightarrow> (l', r') = (l, r))"
proof -
  have adj: "temporal_adjust (max_width_change_ratio cfg) (pr - pl + 1) l (r - l + 1) = (l', r')"
    using apply_temporal_adjust [OF cnt prev, of cfg l r] res by simp
  have h: "1 \<le> pr - pl + 1" "0 \<le> l" "1 \<le> r - l + 1" "l + (r - l + 1) \<le> int SENSOR_WIDTH"
    using pv span by simp_all
  show ?thesis
    using temporal_adjust_bound(1) [OF h(1) ratio h(2,3,4) adj]
      temporal_adjust_bound(2) [OF h(1) ratio h(2,3,4) adj]
      temporal_adjust_bound(3) [OF h(1) ratio h(2,3,4) adj]
    by simp
qed

theorem temporal_clamp_bound_witness:
  "apply_temporal_constraints config one_detection_state 9 22 = (9, 22)
   \<and> real_of_int (22 - 9 + 1)
        \<le> real_of_int (20 - 11 + 1) + real_of_int (20 - 11 + 1) * max_width_change_ratio config + 1
   \<and> apply_temporal_constraints config one_detection_state 12 19 = (12, 19)"
proof -
  have a: "prev_detection_count one_detection_state \<noteq> 0"
    "prev_detections one_detection_state ! 0 = (11, 20)" "(11::int) \<le> 20"
    "0 \<le> max_width_change_ratio config"
    by (simp_all add: one_detection_state_def config_def)
  have b: "(0::int) \<le> 9" "(9::int) \<le> 22" "(22::int) < int SENSOR_WIDTH"
    "(0::int) \<le> 12" "(12::int) \<le> 19" "(19::int) < int SENSOR_WIDTH"
    by (simp_all add: SENSOR_WIDTH_def)
  have r1: "apply_temporal_constraints config one_detection_state 9 22 = (9, 22)"
    by (simp add: apply_temporal_constraints_def one_detection_state_def
        config_def c_trunc_def SENSOR_WIDTH_def signed_divide_int_def)
  obtain l' r' where r2: "apply_temporal_constraints config one_detection_state 12 19 = (l', r')"
    by (cases "apply_temporal_constraints config one_detection_state 12 19") auto
  have k: "\<bar>real_of_int ((19 - 12 + 1) - (20 - 11 + 1))\<bar>
             \<le> real_of_int (20 - 11 + 1) * max_width_change_ratio config"
    by (simp add: config_def)
  show ?thesis
    using temporal_clamp_bound [OF a b(1,2,3) r1] temporal_clamp_bound [OF a b(4,5,6) r2] k r1 r2
    by simp
qed

section \<open>The region grower\<close>

lemma grow_left_spec:
  assumes "- 1 \<le> i" and "lft = i + fc + 1" and "0 \<le> fc" and "fc \<le> max_fail_count cfg"
    and "\<forall>j. i < j \<and> j < lft \<longrightarrow> \<not> ok (profile ! nat j)"
  shows "0 \<le> grow_left cfg profile ok i lft fc \<and> grow_left cfg profile ok i lft fc \<le> lft
       \<and> (grow_left cfg profile ok i lft fc = lft
            \<or> ok (profile ! nat (grow_left cfg profile ok i lft fc)))
       \<and> (\<forall>j. grow_left cfg profile ok i lft fc < j \<and> j + max_fail_count cfg < lft
              \<longrightarrow> (\<exists>t. 0 \<le> t \<and> t \<le> max_fail_count cfg \<and> ok (profile ! nat (j + t))))
       \<and> (\<forall>j. max 0 (grow_left cfg profile ok i lft fc - max_fail_count cfg - 1) \<le> j
                \<and> j < grow_left cfg profile ok i lft fc
              \<longrightarrow> \<not> ok (profile ! nat j))"
  using assms
proof (induction "nat (i + 1)" arbitrary: i lft fc)
  case 0
  then have i: "i = - 1" by simp
  have L: "grow_left cfg profile ok i lft fc = lft"
    using i by (subst grow_left.simps) simp
  show ?case unfolding L using 0 i by auto
next
  case (Suc n)
  then have i0: "0 \<le> i" and n: "n = nat ((i - 1) + 1)" by simp_all
  let ?mf = "max_fail_count cfg"
  show ?case
  proof (cases "ok (profile ! nat i)")
    case True
    have L: "grow_left cfg profile ok i lft fc = grow_left cfg profile ok (i - 1) i 0"
      using i0 True by (subst grow_left.simps) simp
    let ?L = "grow_left cfg profile ok (i - 1) i 0"
    have IH: "0 \<le> ?L \<and> ?L \<le> i \<and> (?L = i \<or> ok (profile ! nat ?L))
       \<and> (\<forall>j. ?L < j \<and> j + ?mf < i \<longrightarrow> (\<exists>t. 0 \<le> t \<and> t \<le> ?mf \<and> ok (profile ! nat (j + t))))
       \<and> (\<forall>j. max 0 (?L - ?mf - 1) \<le> j \<and> j < ?L \<longrightarrow> \<not> ok (profile ! nat j))"
    proof -
      have vac: "\<forall>j. i - 1 < j \<and> j < i \<longrightarrow> \<not> ok (profile ! nat j)" by auto
      have a: "- 1 \<le> i - 1" "i = i - 1 + 0 + 1" "(0::int) \<le> 0" "0 \<le> max_fail_count cfg"
        using i0 Suc.prems(3,4) by simp_all
      show ?thesis by (rule Suc.hyps(1) [OF n a vac])
    qed
    have win: "\<exists>t. 0 \<le> t \<and> t \<le> ?mf \<and> ok (profile ! nat (j + t))"
      if "?L < j" "j + ?mf < lft" for j
    proof (cases "j + ?mf < i")
      case True
      then show ?thesis using IH that by blast
    next
      case False
      have "j \<le> i" using that(2) Suc.prems(2,4) by linarith
      then have "0 \<le> i - j \<and> i - j \<le> ?mf \<and> ok (profile ! nat (j + (i - j)))"
        using False \<open>ok (profile ! nat i)\<close> by simp
      then show ?thesis by blast
    qed
    show ?thesis unfolding L using IH win True Suc.prems(2,3) by auto
  next
    case False
    show ?thesis
    proof (cases "fc + 1 > ?mf")
      case True
      have L: "grow_left cfg profile ok i lft fc = lft"
        using i0 False True by (subst grow_left.simps) simp
      have fc: "fc = ?mf" using True Suc.prems(4) by simp
      have "\<not> ok (profile ! nat j)" if "max 0 (lft - ?mf - 1) \<le> j" "j < lft" for j
      proof (cases "j = i")
        case True
        then show ?thesis using False by simp
      next
        case F: False
        have "i < j" using that(1) F fc Suc.prems(2) by simp
        then show ?thesis using Suc.prems(5) that(2) by blast
      qed
      then show ?thesis unfolding L using i0 Suc.prems(2,3,4) by auto
    next
      case F2: False
      have L: "grow_left cfg profile ok i lft fc = grow_left cfg profile ok (i - 1) lft (fc + 1)"
        using i0 False F2 by (subst grow_left.simps) simp
      have pre: "\<forall>j. i - 1 < j \<and> j < lft \<longrightarrow> \<not> ok (profile ! nat j)"
      proof (intro allI impI)
        fix j assume "i - 1 < j \<and> j < lft"
        then show "\<not> ok (profile ! nat j)"
          using False Suc.prems(5) by (cases "j = i") auto
      qed
      have a: "- 1 \<le> i - 1" "lft = i - 1 + (fc + 1) + 1" "0 \<le> fc + 1"
        "fc + 1 \<le> max_fail_count cfg"
        using i0 Suc.prems(2,3) F2 by simp_all
      show ?thesis unfolding L by (rule Suc.hyps(1) [OF n a pre])
    qed
  qed
qed


lemma grow_right_spec:
  assumes "i \<le> int SENSOR_WIDTH" and "rgt = i - fc - 1" and "0 \<le> fc"
    and "fc \<le> max_fail_count cfg"
    and "\<forall>j. rgt < j \<and> j < i \<longrightarrow> \<not> ok (profile ! nat j)"
  shows "rgt \<le> grow_right cfg profile ok i rgt fc
       \<and> grow_right cfg profile ok i rgt fc < int SENSOR_WIDTH
       \<and> (grow_right cfg profile ok i rgt fc = rgt
            \<or> ok (profile ! nat (grow_right cfg profile ok i rgt fc)))
       \<and> (\<forall>j. rgt < j - max_fail_count cfg \<and> j < grow_right cfg profile ok i rgt fc
              \<longrightarrow> (\<exists>t. 0 \<le> t \<and> t \<le> max_fail_count cfg \<and> ok (profile ! nat (j - t))))
       \<and> (\<forall>j. grow_right cfg profile ok i rgt fc < j
                \<and> j \<le> min (int SENSOR_WIDTH - 1)
                          (grow_right cfg profile ok i rgt fc + max_fail_count cfg + 1)
              \<longrightarrow> \<not> ok (profile ! nat j))"
  using assms
proof (induction "nat (int SENSOR_WIDTH - i)" arbitrary: i rgt fc)
  case 0
  then have i: "i = int SENSOR_WIDTH" by simp
  have R: "grow_right cfg profile ok i rgt fc = rgt"
    using i by (subst grow_right.simps) simp
  show ?case unfolding R using 0 i by auto
next
  case (Suc n)
  then have i0: "i < int SENSOR_WIDTH" and n: "n = nat (int SENSOR_WIDTH - (i + 1))" by simp_all
  let ?mf = "max_fail_count cfg"
  show ?case
  proof (cases "ok (profile ! nat i)")
    case True
    have R: "grow_right cfg profile ok i rgt fc = grow_right cfg profile ok (i + 1) i 0"
      using i0 True by (subst grow_right.simps) simp
    let ?R = "grow_right cfg profile ok (i + 1) i 0"
    have IH: "i \<le> ?R \<and> ?R < int SENSOR_WIDTH \<and> (?R = i \<or> ok (profile ! nat ?R))
       \<and> (\<forall>j. i < j - ?mf \<and> j < ?R \<longrightarrow> (\<exists>t. 0 \<le> t \<and> t \<le> ?mf \<and> ok (profile ! nat (j - t))))
       \<and> (\<forall>j. ?R < j \<and> j \<le> min (int SENSOR_WIDTH - 1) (?R + ?mf + 1) \<longrightarrow> \<not> ok (profile ! nat j))"
    proof -
      have vac: "\<forall>j. i < j \<and> j < i + 1 \<longrightarrow> \<not> ok (profile ! nat j)" by auto
      have a: "i + 1 \<le> int SENSOR_WIDTH" "i = i + 1 - 0 - 1" "(0::int) \<le> 0"
        "0 \<le> max_fail_count cfg"
        using i0 Suc.prems(3,4) by simp_all
      show ?thesis by (rule Suc.hyps(1) [OF n a vac])
    qed
    have win: "\<exists>t. 0 \<le> t \<and> t \<le> ?mf \<and> ok (profile ! nat (j - t))"
      if "rgt < j - ?mf" "j < ?R" for j
    proof (cases "i < j - ?mf")
      case True
      then show ?thesis using IH that by blast
    next
      case False
      have "i \<le> j" using that(1) Suc.prems(2,4) by linarith
      then have "0 \<le> j - i \<and> j - i \<le> ?mf \<and> ok (profile ! nat (j - (j - i)))"
        using False \<open>ok (profile ! nat i)\<close> by simp
      then show ?thesis by blast
    qed
    show ?thesis unfolding R using IH win True Suc.prems(2,3) by auto
  next
    case False
    show ?thesis
    proof (cases "fc + 1 > ?mf")
      case True
      have R: "grow_right cfg profile ok i rgt fc = rgt"
        using i0 False True by (subst grow_right.simps) simp
      have fc: "fc = ?mf" using True Suc.prems(4) by simp
      have "\<not> ok (profile ! nat j)"
        if "rgt < j" "j \<le> min (int SENSOR_WIDTH - 1) (rgt + ?mf + 1)" for j
      proof (cases "j = i")
        case True
        then show ?thesis using False by simp
      next
        case F: False
        have "j < i" using that(2) F fc Suc.prems(2) by simp
        then show ?thesis using Suc.prems(5) that(1) by blast
      qed
      then show ?thesis unfolding R using i0 Suc.prems(2,3,4) by auto
    next
      case F2: False
      have R: "grow_right cfg profile ok i rgt fc = grow_right cfg profile ok (i + 1) rgt (fc + 1)"
        using i0 False F2 by (subst grow_right.simps) simp
      have pre: "\<forall>j. rgt < j \<and> j < i + 1 \<longrightarrow> \<not> ok (profile ! nat j)"
      proof (intro allI impI)
        fix j assume "rgt < j \<and> j < i + 1"
        then show "\<not> ok (profile ! nat j)"
          using False Suc.prems(5) by (cases "j = i") auto
      qed
      have a: "i + 1 \<le> int SENSOR_WIDTH" "rgt = i + 1 - (fc + 1) - 1" "0 \<le> fc + 1"
        "fc + 1 \<le> max_fail_count cfg"
        using i0 Suc.prems(2,3) F2 by simp_all
      show ?thesis unfolding R by (rule Suc.hyps(1) [OF n a pre])
    qed
  qed
qed



text \<open>
  Claim C2. With the seed column \<open>c = centre_col\<close> on the sensor and a non-negative
  \<open>max_fail_count\<close>, let \<open>(L, R)\<close> be the result of \<^verbatim>\<open>grow_region\<close>.
  \<^item> A value extends the span exactly when it is within \<open>k\<close> of the seed's value or
    passes the global contrast test for the computed inversion flag.
  \<^item> \<open>0 \<le> L \<le> c \<le> R \<le> 31\<close>, and each boundary is the seed or a column that satisfies
    the criteria: never a failing one.
  \<^item> Between a boundary and the seed there is no run of \<open>max_fail_count + 1\<close> consecutive
    failing columns: the counter was reset before it exceeded \<open>max_fail_count\<close>.
  \<^item> Beyond a boundary the next \<open>max_fail_count + 1\<close> columns (or all columns up to the
    sensor edge) fail: there the counter was incremented on each column and the scan
    stopped once it exceeded \<open>max_fail_count\<close>.
\<close>

theorem grow_region_spec:
  assumes "0 \<le> centre_col cfg" and "centre_col cfg < int SENSOR_WIDTH"
    and "0 \<le> max_fail_count cfg"
    and "grow_region cfg profile m g = (L, R)"
  shows "(\<forall>t. region_ok cfg profile m g t \<longleftrightarrow>
            (\<bar>t - profile ! nat (centre_col cfg)\<bar> \<le> region_k cfg profile
             \<or> (if profile ! nat (centre_col cfg) < m - region_delta cfg g
                 then t \<le> m - region_delta cfg g else t \<ge> m + region_delta cfg g)))
       \<and> 0 \<le> L \<and> L \<le> centre_col cfg \<and> centre_col cfg \<le> R \<and> R < int SENSOR_WIDTH
       \<and> (L = centre_col cfg \<or> column_ok cfg profile m g L)
       \<and> (R = centre_col cfg \<or> column_ok cfg profile m g R)
       \<and> (\<forall>j. L < j \<and> j + max_fail_count cfg < centre_col cfg
              \<longrightarrow> (\<exists>t. 0 \<le> t \<and> t \<le> max_fail_count cfg \<and> column_ok cfg profile m g (j + t)))
       \<and> (\<forall>j. centre_col cfg < j - max_fail_count cfg \<and> j < R
              \<longrightarrow> (\<exists>t. 0 \<le> t \<and> t \<le> max_fail_count cfg \<and> column_ok cfg profile m g (j - t)))
       \<and> (\<forall>j. max 0 (L - max_fail_count cfg - 1) \<le> j \<and> j < L
              \<longrightarrow> \<not> column_ok cfg profile m g j)
       \<and> (\<forall>j. R < j \<and> j \<le> min (int SENSOR_WIDTH - 1) (R + max_fail_count cfg + 1)
              \<longrightarrow> \<not> column_ok cfg profile m g j)"
proof -
  let ?c = "centre_col cfg"
  let ?ok = "region_ok cfg profile m g"
  have L: "L = grow_left cfg profile ?ok (?c - 1) ?c 0"
    and R: "R = grow_right cfg profile ?ok (?c + 1) ?c 0"
    using assms(4) by (simp_all add: grow_region_def Let_def)
  have crit: "\<forall>t. region_ok cfg profile m g t \<longleftrightarrow>
            (\<bar>t - profile ! nat ?c\<bar> \<le> region_k cfg profile
             \<or> (if profile ! nat ?c < m - region_delta cfg g
                 then t \<le> m - region_delta cfg g else t \<ge> m + region_delta cfg g))"
    by (simp add: region_ok_def extends_span_def Let_def)
  have vl: "\<forall>j. ?c - 1 < j \<and> j < ?c \<longrightarrow> \<not> ?ok (profile ! nat j)" by auto
  have vr: "\<forall>j. ?c < j \<and> j < ?c + 1 \<longrightarrow> \<not> ?ok (profile ! nat j)" by auto
  have al: "- 1 \<le> ?c - 1" "?c = ?c - 1 + 0 + 1" "(0::int) \<le> 0"
    and ar: "?c + 1 \<le> int SENSOR_WIDTH" "?c = ?c + 1 - 0 - 1"
    using assms(1,2) by simp_all
  show ?thesis
    using grow_left_spec [OF al assms(3) vl] grow_right_spec [OF ar al(3) assms(3) vr] crit
    unfolding L [symmetric] R [symmetric] column_ok_def
    by simp
qed




lemma median_five_40: "calculate_median [40, 40, 40, 40, 40] 5 = 40"
  by (simp add: calculate_median_def clip_count_def quick_select_median_def SENSOR_WIDTH_def MIDDLE_ROWS_def
        sort_outer.simps sort_inner.simps swap_float_def Let_def)

lemma median_five_0: "calculate_median [0, 0, 0, 0, 0] 5 = 0"
  by (simp add: calculate_median_def clip_count_def quick_select_median_def SENSOR_WIDTH_def MIDDLE_ROWS_def
        sort_outer.simps sort_inner.simps swap_float_def Let_def)

lemma clip_count_5: "clip_count 5 = 5"
  by (simp add: clip_count_def SENSOR_WIDTH_def MIDDLE_ROWS_def)

lemma deviations_window_40: "map (\<lambda>i. \<bar>(40 # 40 # 40 # 40 # 40 # xs) ! i - 40\<bar>) [0..<5] = [0, 0, 0, 0, 0::real]"
  by (simp add: upt_rec)

lemma median_window_40: "calculate_median (40 # 40 # 40 # 40 # 40 # xs) 5 = 40"
  using median_five_40 by (simp add: calculate_median_def clip_count_5)

lemma mad_window_40: "calculate_mad (40 # 40 # 40 # 40 # 40 # xs) 5 = 0"
  by (simp add: calculate_mad_def clip_count_5 median_window_40 deviations_window_40 median_five_0)

lemma band_k: "region_k config band_profile = 5"
  by (simp add: region_k_def config_def band_profile_def SENSOR_WIDTH_def Let_def mad_window_40)



lemma band_ok: "region_ok config band_profile 20 1 t \<longleftrightarrow> \<bar>t - 40\<bar> \<le> 5 \<or> 23 \<le> t"
proof -
  have c: "band_profile ! nat (centre_col config) = 40"
    by (simp add: config_def band_profile_def)
  have d: "region_delta config 1 = 3"
    by (simp add: region_delta_def config_def)
  show ?thesis
    by (simp add: region_ok_def band_k extends_span_def Let_def c d)
qed


lemma band_vals:
  "band_profile ! 0 = 20" "band_profile ! 1 = 20" "band_profile ! 7 = 20" "band_profile ! 8 = 20" "band_profile ! 9 = 20"
  "band_profile ! 10 = 40" "band_profile ! 11 = 40" "band_profile ! 12 = 40" "band_profile ! 13 = 40"
  "band_profile ! 14 = 40" "band_profile ! 15 = 40" "band_profile ! 16 = 40" "band_profile ! 17 = 40"
  "band_profile ! 18 = 40" "band_profile ! 19 = 40" "band_profile ! 20 = 40" "band_profile ! 21 = 40"
  "band_profile ! 22 = 20" "band_profile ! 23 = 20" "band_profile ! 24 = 20"
  by (simp_all add: band_profile_def)

lemma config_max_fail: "max_fail_count config = 2"
  by (simp add: config_def)

lemma band_left: "grow_left config band_profile (region_ok config band_profile 20 1) 15 16 0 = 10"
  by (subst grow_left.simps, simp add: band_ok band_vals config_max_fail)+

lemma band_right: "grow_right config band_profile (region_ok config band_profile 20 1) 17 16 0 = 21"
  by (subst grow_right.simps, simp add: band_ok band_vals config_max_fail SENSOR_WIDTH_def)+


theorem grow_region_spec_witness:
  "grow_region config band_profile 20 1 = (10, 21)
   \<and> column_ok config band_profile 20 1 10 \<and> column_ok config band_profile 20 1 21
   \<and> \<not> column_ok config band_profile 20 1 9 \<and> \<not> column_ok config band_profile 20 1 22"
proof -
  have c: "centre_col config = 16" by (simp add: config_def)
  have e: "grow_region config band_profile 20 1 = (10, 21)"
    by (simp add: grow_region_def Let_def c band_left band_right)
  have h: "0 \<le> centre_col config" "centre_col config < int SENSOR_WIDTH"
    "0 \<le> max_fail_count config"
    by (simp_all add: config_def SENSOR_WIDTH_def)
  have s: "(10 = centre_col config \<or> column_ok config band_profile 20 1 10)
     \<and> (21 = centre_col config \<or> column_ok config band_profile 20 1 21)
     \<and> (\<forall>j. max 0 (10 - max_fail_count config - 1) \<le> j \<and> j < 10
              \<longrightarrow> \<not> column_ok config band_profile 20 1 j)
     \<and> (\<forall>j. 21 < j \<and> j \<le> min (int SENSOR_WIDTH - 1) (21 + max_fail_count config + 1)
              \<longrightarrow> \<not> column_ok config band_profile 20 1 j)"
    using grow_region_spec [OF h e] by blast
  have "\<not> column_ok config band_profile 20 1 9" "\<not> column_ok config band_profile 20 1 22"
    using s by (simp_all add: config_max_fail SENSOR_WIDTH_def)
  then show ?thesis using s e by (simp add: c)
qed

section \<open>Span bounds through the stabiliser\<close>

lemma geometry_valid:
  assumes "valid_span (l, r)" and "1 \<le> max_tyre_width cfg"
    and "min_tyre_width cfg \<le> max_tyre_width cfg"
  shows "valid_span (apply_geometry_constraints cfg l r)"
proof (cases "r - l + 1 < min_tyre_width cfg")
  case True
  define e where "e = (min_tyre_width cfg - (r - l + 1)) div 2"
  have e0: "0 \<le> e" using True by (simp add: e_def)
  have sd: "(min_tyre_width cfg - (r - l + 1)) sdiv 2 = e"
    using True by (simp add: e_def sdiv_nonneg)
  have nm: "\<not> r - l + 1 > max_tyre_width cfg" using True assms(3) by simp
  show ?thesis
    using True nm assms(1) e0
    by (auto simp: apply_geometry_constraints_def Let_def sd valid_span_def SENSOR_WIDTH_def)
next
  case False
  show ?thesis
  proof (cases "r - l + 1 > max_tyre_width cfg")
    case True
    define s where "s = (r - l + 1 - max_tyre_width cfg) div 2"
    have s0: "0 \<le> s" "2 * s \<le> r - l + 1 - max_tyre_width cfg" using True by (simp_all add: s_def)
    have sd: "(r - l + 1 - max_tyre_width cfg) sdiv 2 = s"
      using True by (simp add: s_def sdiv_nonneg)
    show ?thesis
      using True False assms(1,2) s0
      by (auto simp: apply_geometry_constraints_def Let_def sd valid_span_def SENSOR_WIDTH_def)
  next
    case F: False
    show ?thesis
      using False F assms(1)
      by (auto simp: apply_geometry_constraints_def Let_def valid_span_def SENSOR_WIDTH_def)
  qed
qed

lemma temporal_valid:
  assumes "valid_span (l, r)" and "history_valid st" and "0 \<le> max_width_change_ratio cfg"
  shows "valid_span (apply_temporal_constraints cfg st l r)"
proof (cases "prev_detection_count st = 0")
  case True
  then show ?thesis using assms(1) by (simp add: apply_temporal_constraints_def)
next
  case False
  obtain pl pr where p: "prev_detections st ! 0 = (pl, pr)"
    by (cases "prev_detections st ! 0") auto
  have pv: "pl \<le> pr" using assms(2) False p by (auto simp: history_valid_def valid_span_def)
  obtain l' r' where res: "temporal_adjust (max_width_change_ratio cfg) (pr - pl + 1) l (r - l + 1) = (l', r')"
    by (cases "temporal_adjust (max_width_change_ratio cfg) (pr - pl + 1) l (r - l + 1)") auto
  have h: "1 \<le> pr - pl + 1" "0 \<le> l" "1 \<le> r - l + 1" "l + (r - l + 1) \<le> int SENSOR_WIDTH"
    using pv assms(1) by (simp_all add: valid_span_def)
  show ?thesis
    using temporal_adjust_bound(4) [OF h(1) assms(3) h(2,3,4) res]
      apply_temporal_adjust [OF False p, of cfg l r] res
    by (simp add: valid_span_def)
qed

lemma c_trunc_weighted:
  assumes "0 \<le> a" "0 \<le> c" "0 \<le> x"
  shows "c_trunc ((real_of_int a + real_of_int c * 4 + real_of_int x * 9) / 14)
           = (a + c * 4 + x * 9) div 14"
proof -
  have "(real_of_int a + real_of_int c * 4 + real_of_int x * 9) / 14
          = real_of_int (a + c * 4 + x * 9) / real_of_int 14" by simp
  moreover have "0 \<le> real_of_int (a + c * 4 + x * 9) / real_of_int 14" using assms by simp
  ultimately show ?thesis
    by (simp only: c_trunc_floor floor_divide_of_int_eq)
qed

lemma persistence_valid:
  assumes "valid_span (l, r)" and "history_valid st" and "persistence_frames cfg = 2"
  shows "valid_span (fst (apply_persistence cfg st l r))
       \<and> history_valid (snd (apply_persistence cfg st l r))"
proof -
  obtain a b c d where pd: "prev_detections st = [(a, b), (c, d)]"
    using assms(2) unfolding history_valid_def
    by (cases "prev_detections st"; cases "tl (prev_detections st)") auto
  consider (c0) "prev_detection_count st = 0" | (c1) "prev_detection_count st = 1"
    | (c2) "prev_detection_count st = 2"
    using assms(2) by (auto simp: history_valid_def)
  then show ?thesis
  proof cases
    case c0
    then show ?thesis using assms pd by (simp add: apply_persistence_def history_valid_def)
  next
    case c1
    then show ?thesis using assms pd by (simp add: apply_persistence_def history_valid_def)
  next
    case c2
    have v: "0 \<le> a" "a \<le> b" "b \<le> 31" "0 \<le> c" "c \<le> d" "d \<le> 31" "0 \<le> l" "l \<le> r" "r \<le> 31"
      using assms(1,2) c2 pd by (auto simp: history_valid_def valid_span_def SENSOR_WIDTH_def)
    have tl: "c_trunc ((real_of_int a + real_of_int c * 4 + real_of_int l * 9) / 14) = (a + c * 4 + l * 9) div 14"
      and tr: "c_trunc ((real_of_int b + real_of_int d * 4 + real_of_int r * 9) / 14) = (b + d * 4 + r * 9) div 14"
      using v by (simp_all add: c_trunc_weighted)
    have res: "apply_persistence cfg st l r
       = (((a + c * 4 + l * 9) div 14, (b + d * 4 + r * 9) div 14),
          st\<lparr>prev_detections := [(c, d), ((a + c * 4 + l * 9) div 14, (b + d * 4 + r * 9) div 14)]\<rparr>)"
      using c2 assms(3) pd
      by (simp add: apply_persistence_def persistence_sums_2 [OF assms(3) pd] tl tr Let_def)
    have b: "0 \<le> (a + c * 4 + l * 9) div 14" "(a + c * 4 + l * 9) div 14 \<le> (b + d * 4 + r * 9) div 14"
      "(b + d * 4 + r * 9) div 14 \<le> 31"
      using v by (simp_all add: zdiv_mono1)
    show ?thesis
      using b v c2 unfolding res
      by (simp add: valid_span_def history_valid_def SENSOR_WIDTH_def)
  qed
qed


lemma apply_ema_history:
  "prev_detections (snd (apply_ema cfg st current obuf n)) = prev_detections st
   \<and> prev_detection_count (snd (apply_ema cfg st current obuf n)) = prev_detection_count st"
  by (simp add: apply_ema_def split_beta)

lemma smooth_profile_history:
  "prev_detections (snd (smooth_profile cfg st frame)) = prev_detections st
   \<and> prev_detection_count (snd (smooth_profile cfg st frame)) = prev_detection_count st"
  by (simp add: smooth_profile_def Let_def apply_ema_history)

lemma smooth_profile_valid:
  "history_valid (snd (smooth_profile cfg st frame)) = history_valid st"
  by (simp add: history_valid_def smooth_profile_history)

lemma detect_tyre_uniform:
  assumes "uniform_profile cfg st frame"
  shows "detect_tyre cfg st frame res
           = (0, snd (smooth_profile cfg st frame),
              res\<lparr> detected := 0,
                   left := calculate_zone_stats frame 0 9,
                   centre := calculate_zone_stats frame 10 19,
                   right := calculate_zone_stats frame 20 31,
                   tyre_width := 0, confidence := 0, lateral_gradient := 0 \<rparr>)"
  using assms
  by (simp add: detect_tyre_def uniform_profile_def split_beta Let_def SENSOR_WIDTH_def
        signed_divide_int_def)

lemma stabiliser_parts:
  assumes "stabiliser cfg st l0 r0 = ((g, t, p), st2)"
  shows "g = apply_geometry_constraints cfg l0 r0"
    and "t = apply_temporal_constraints cfg st (fst g) (snd g)"
    and "apply_persistence cfg st (fst t) (snd t) = (p, st2)"
proof -
  define G where "G = apply_geometry_constraints cfg l0 r0"
  define T where "T = apply_temporal_constraints cfg st (fst G) (snd G)"
  define P where "P = apply_persistence cfg st (fst T) (snd T)"
  have "stabiliser cfg st l0 r0 = ((G, T, fst P), snd P)"
    by (simp add: stabiliser_def Let_def split_beta G_def T_def P_def)
  then have e: "G = g" "T = t" "fst P = p" "snd P = st2" using assms by simp_all
  show "g = apply_geometry_constraints cfg l0 r0" using e(1) G_def by simp
  show "t = apply_temporal_constraints cfg st (fst g) (snd g)" using e(1,2) T_def by simp
  have "P = (p, st2)" using e(3,4) by (cases P) simp
  then show "apply_persistence cfg st (fst t) (snd t) = (p, st2)" using e(2) P_def by simp
qed

lemma detect_tyre_detected:
  assumes "\<not> uniform_profile cfg st frame"
    and "smooth_profile cfg st frame = (smoothed, st1)"
    and "grow_region cfg smoothed (calculate_median smoothed SENSOR_WIDTH)
           (calculate_mad smoothed SENSOR_WIDTH) = (l0, r0)"
    and "stabiliser cfg st1 l0 r0 = ((g, t, p), st2)"
  shows "detect_tyre cfg st frame res = (1, st2, analyze_tyre cfg frame smoothed (fst p) (snd p) res)"
proof -
  note sp = stabiliser_parts [OF assms(4)]
  show ?thesis
    using assms(1,2,3)
    by (simp add: detect_tyre_def uniform_profile_def Let_def split_beta
          sp(1) [symmetric] sp(2) [symmetric] sp(3))
qed

lemma grow_region_valid:
  assumes "config_ok cfg"
  shows "valid_span (grow_region cfg profile m g)"
proof -
  let ?c = "centre_col cfg"
  let ?ok = "region_ok cfg profile m g"
  have c: "0 \<le> ?c" "?c < int SENSOR_WIDTH" "0 \<le> max_fail_count cfg"
    using assms by (simp_all add: config_ok_def)
  have vl: "\<forall>j. ?c - 1 < j \<and> j < ?c \<longrightarrow> \<not> ?ok (profile ! nat j)" by auto
  have vr: "\<forall>j. ?c < j \<and> j < ?c + 1 \<longrightarrow> \<not> ?ok (profile ! nat j)" by auto
  have al: "- 1 \<le> ?c - 1" "?c = ?c - 1 + 0 + 1" "(0::int) \<le> 0"
    and ar: "?c + 1 \<le> int SENSOR_WIDTH" "?c = ?c + 1 - 0 - 1"
    using c by simp_all
  show ?thesis
    using grow_left_spec [OF al c(3) vl] grow_right_spec [OF ar al(3) c(3) vr]
    by (simp add: grow_region_def Let_def valid_span_def)
qed

lemma stabiliser_valid:
  assumes "config_ok cfg" and "history_valid st" and "valid_span (l0, r0)"
    and "stabiliser cfg st l0 r0 = ((g, t, p), st2)"
  shows "valid_span g \<and> valid_span t \<and> valid_span p \<and> history_valid st2"
proof -
  have c: "1 \<le> max_tyre_width cfg" "min_tyre_width cfg \<le> max_tyre_width cfg"
    "0 \<le> max_width_change_ratio cfg" "persistence_frames cfg = 2"
    using assms(1) by (simp_all add: config_ok_def)
  note sp = stabiliser_parts [OF assms(4)]
  have g: "g = apply_geometry_constraints cfg l0 r0"
    and t: "t = apply_temporal_constraints cfg st (fst g) (snd g)"
    and p: "p = fst (apply_persistence cfg st (fst t) (snd t))"
    and s: "st2 = snd (apply_persistence cfg st (fst t) (snd t))"
    using sp by simp_all
  have vg: "valid_span g" unfolding g by (rule geometry_valid [OF assms(3) c(1,2)])
  have vt: "valid_span t" unfolding t using vg by (intro temporal_valid assms(2) c(3)) simp
  have vp: "valid_span p \<and> history_valid st2"
    unfolding p s using vt by (intro persistence_valid assms(2) c(4)) simp
  show ?thesis using vg vt vp by simp
qed

lemma process_frame_valid:
  assumes "config_ok cfg" and "history_valid st"
  shows "history_valid (fst (snd (process_frame cfg st frame)))"
proof (cases "uniform_profile cfg st frame")
  case True
  then show ?thesis
    using assms(2) by (simp add: process_frame_def detect_tyre_uniform smooth_profile_valid)
next
  case False
  obtain smoothed st1 where sp: "smooth_profile cfg st frame = (smoothed, st1)"
    by (cases "smooth_profile cfg st frame") auto
  obtain l0 r0 where gr: "grow_region cfg smoothed (calculate_median smoothed SENSOR_WIDTH)
           (calculate_mad smoothed SENSOR_WIDTH) = (l0, r0)"
    by (cases "grow_region cfg smoothed (calculate_median smoothed SENSOR_WIDTH)
           (calculate_mad smoothed SENSOR_WIDTH)") auto
  obtain g t p st2 where sb: "stabiliser cfg st1 l0 r0 = ((g, t, p), st2)"
    by (cases "stabiliser cfg st1 l0 r0") auto
  have h1: "history_valid st1" using smooth_profile_valid [of cfg st frame] sp assms(2) by simp
  have v0: "valid_span (l0, r0)" using grow_region_valid [OF assms(1)] gr by metis
  have "history_valid st2" using stabiliser_valid [OF assms(1) h1 v0 sb] by simp
  then show ?thesis
    by (simp add: process_frame_def detect_tyre_detected [OF False sp gr sb])
qed

lemma run_frames_valid:
  assumes "config_ok cfg"
  shows "history_valid (run_frames cfg frames)"
proof (induction frames rule: rev_induct)
  case Nil
  show ?case by (simp add: run_frames_def history_valid_def temporal_state_init_def)
next
  case (snoc f fs)
  then show ?case
    using process_frame_valid [OF assms, of "run_frames cfg fs" f]
    by (simp add: run_frames_def)
qed

text \<open>
  Claim C10. Let the state be the one reached from the initial state by any sequence of
  frames, and let the next frame pass the uniformity gate. Then the span after the
  geometry clamp, after the temporal-continuity clamp and after persistence smoothing
  each satisfy \<open>0 \<le> left \<le> right \<le> 31\<close>; every entry stored in the detection history of
  the new state satisfies the same bounds; and the result has \<open>detected = 1\<close>, reports the
  span of the last stage and has \<open>tyre_width \<ge> 1\<close>.
\<close>

theorem stabiliser_spans_valid:
  assumes "config_ok cfg"
    and "st = run_frames cfg frames"
    and "\<not> uniform_profile cfg st frame"
    and "smooth_profile cfg st frame = (smoothed, st1)"
    and "grow_region cfg smoothed (calculate_median smoothed SENSOR_WIDTH)
           (calculate_mad smoothed SENSOR_WIDTH) = (l0, r0)"
    and "stabiliser cfg st1 l0 r0 = ((g, t, p), st2)"
    and "detect_tyre cfg st frame result = (ret, st', res)"
  shows "valid_span g \<and> valid_span t \<and> valid_span p
       \<and> st' = st2 \<and> history_valid st'
       \<and> detected res = 1 \<and> span_start res = fst p \<and> span_end res = snd p
       \<and> tyre_width res \<ge> 1"
proof -
  have h: "history_valid st" unfolding assms(2) by (rule run_frames_valid [OF assms(1)])
  have h1: "history_valid st1"
    using smooth_profile_valid [of cfg st frame] assms(4) h by simp
  have v0: "valid_span (l0, r0)" using grow_region_valid [OF assms(1)] assms(5) by metis
  have v: "valid_span g \<and> valid_span t \<and> valid_span p \<and> history_valid st2"
    by (rule stabiliser_valid [OF assms(1) h1 v0 assms(6)])
  have d: "st' = st2" "res = analyze_tyre cfg frame smoothed (fst p) (snd p) result"
    using detect_tyre_detected [OF assms(3,4,5,6), of result] assms(7) by simp_all
  have r: "detected res = 1" "span_start res = fst p" "span_end res = snd p"
    "tyre_width res = snd p - fst p + 1"
    unfolding d(2) by (simp_all add: analyze_tyre_def Let_def)
  show ?thesis using v d(1) r by (simp add: valid_span_def)
qed

section \<open>The sorting loops compute the sorted array\<close>

text \<open>
  The exchange sort of \<^verbatim>\<open>quick_select_median\<close> returns the sorted permutation of its
  input, so the median it reads is the median of the sorted values.
\<close>

lemma swap_float_props:
  assumes "i < j" and "j < length arr"
  shows "length (swap_float i j arr) = length arr"
    and "mset (swap_float i j arr) = mset arr"
    and "take i (swap_float i j arr) = take i arr"
    and "swap_float i j arr ! i = arr ! j"
    and "swap_float i j arr ! j = arr ! i"
    and "\<And>k. k \<noteq> i \<Longrightarrow> k \<noteq> j \<Longrightarrow> swap_float i j arr ! k = arr ! k"
  using assms by (simp_all add: swap_float_def mset_swap)

lemma sort_inner_spec:
  assumes "i < j" and "j \<le> n" and "n = length arr"
  shows "length (sort_inner arr i j n) = n
       \<and> take i (sort_inner arr i j n) = take i arr
       \<and> mset (sort_inner arr i j n) = mset arr
       \<and> (\<forall>k. i < k \<and> k < j \<longrightarrow> sort_inner arr i j n ! k = arr ! k)
       \<and> sort_inner arr i j n ! i \<le> arr ! i
       \<and> (\<forall>k. j \<le> k \<and> k < n \<longrightarrow> sort_inner arr i j n ! i \<le> sort_inner arr i j n ! k)"
  using assms
proof (induction "n - j" arbitrary: arr j)
  case 0
  then have "j = n" by simp
  then show ?case using 0 by (subst (1 2 3 4 5 6 7) sort_inner.simps) simp
next
  case (Suc m)
  then have jn: "j < n" and m: "m = n - Suc j" by simp_all
  define arr' where "arr' = (if arr ! i > arr ! j then swap_float i j arr else arr)"
  have R: "sort_inner arr i j n = sort_inner arr' i (Suc j) n"
    using jn by (subst sort_inner.simps) (simp add: arr'_def)
  have jl: "j < length arr" using jn Suc.prems(3) by simp
  have len: "n = length arr'"
    using swap_float_props(1) [OF Suc.prems(1) jl] Suc.prems(3) by (simp add: arr'_def)
  have a: "take i arr' = take i arr" "mset arr' = mset arr"
    "arr' ! i \<le> arr ! i" "arr' ! i \<le> arr' ! j"
    "\<And>k. k \<noteq> i \<Longrightarrow> k \<noteq> j \<Longrightarrow> arr' ! k = arr ! k"
    using swap_float_props [OF Suc.prems(1) jl] by (auto simp: arr'_def)
  have IH: "length (sort_inner arr' i (Suc j) n) = n
       \<and> take i (sort_inner arr' i (Suc j) n) = take i arr'
       \<and> mset (sort_inner arr' i (Suc j) n) = mset arr'
       \<and> (\<forall>k. i < k \<and> k < Suc j \<longrightarrow> sort_inner arr' i (Suc j) n ! k = arr' ! k)
       \<and> sort_inner arr' i (Suc j) n ! i \<le> arr' ! i
       \<and> (\<forall>k. Suc j \<le> k \<and> k < n \<longrightarrow> sort_inner arr' i (Suc j) n ! i \<le> sort_inner arr' i (Suc j) n ! k)"
    using Suc.hyps(1) [OF m, of arr'] Suc.prems(1) jn len by simp
  have atj: "sort_inner arr' i (Suc j) n ! j = arr' ! j" using IH Suc.prems(1) by simp
  have k1: "\<forall>k. i < k \<and> k < j \<longrightarrow> sort_inner arr' i (Suc j) n ! k = arr ! k"
    using IH a(5) by auto
  have k2: "\<forall>k. j \<le> k \<and> k < n \<longrightarrow> sort_inner arr' i (Suc j) n ! i \<le> sort_inner arr' i (Suc j) n ! k"
  proof (intro allI impI)
    fix k assume k: "j \<le> k \<and> k < n"
    show "sort_inner arr' i (Suc j) n ! i \<le> sort_inner arr' i (Suc j) n ! k"
    proof (cases "k = j")
      case True
      then show ?thesis using IH a(4) atj by simp
    next
      case False
      then show ?thesis using IH k by simp
    qed
  qed
  show ?case unfolding R using IH a(1,2,3) k1 k2 by auto
qed


lemma mset_drop_eq:
  assumes "mset R = mset arr" and "take i R = take i arr"
  shows "mset (drop i R) = mset (drop i arr)"
proof -
  have "mset (take i R) + mset (drop i R) = mset (take i arr) + mset (drop i arr)"
    using assms(1) by (simp only: mset_append [symmetric] append_take_drop_id)
  then show ?thesis using assms(2) by simp
qed

lemma sort_outer_spec:
  assumes "i \<le> n" and "n = length arr" and "sorted (take i arr)"
    and "\<forall>x \<in> set (take i arr). \<forall>y \<in> set (drop i arr). x \<le> y"
  shows "sorted (sort_outer arr i n) \<and> mset (sort_outer arr i n) = mset arr"
  using assms
proof (induction "n - i" arbitrary: arr i)
  case 0
  then have R: "sort_outer arr i n = arr" by (subst sort_outer.simps) simp
  have "drop i arr = []" using 0 by simp
  then have "arr = take i arr" by (metis append_Nil2 append_take_drop_id)
  then show ?case unfolding R using 0(4) by simp
next
  case (Suc m)
  then have iltn: "i < n" and m: "m = n - Suc i" by simp_all
  show ?case
  proof (cases "Suc i < n")
    case False
    then have R: "sort_outer arr i n = arr" by (subst sort_outer.simps) simp
    have "length (drop i arr) = 1" using False iltn Suc.prems(2) by simp
    then obtain z where z: "drop i arr = [z]"
      by (cases "drop i arr") auto
    have "sorted (take i arr @ drop i arr)"
      unfolding sorted_append using Suc.prems(3,4) z by simp
    then show ?thesis unfolding R by simp
  next
    case True
    define R where "R = sort_inner arr i (Suc i) n"
    have O: "sort_outer arr i n = sort_outer R (Suc i) n"
      using True by (subst sort_outer.simps) (simp add: R_def)
    have sp: "length R = n" "take i R = take i arr" "mset R = mset arr"
      "\<forall>k. Suc i \<le> k \<and> k < n \<longrightarrow> R ! i \<le> R ! k"
      using sort_inner_spec [of i "Suc i" n arr] True Suc.prems(2) by (simp_all add: R_def)
    have md: "mset (drop i R) = mset (drop i arr)" by (rule mset_drop_eq [OF sp(3,2)])
    then have sd: "set (drop i R) = set (drop i arr)" by (rule mset_eq_setD)
    have Ri: "R ! i \<in> set (drop i R)"
      using iltn sp(1) by (metis Cons_nth_drop_Suc list.set_intros(1))
    have tk: "take (Suc i) R = take i arr @ [R ! i]"
      using iltn sp(1,2) by (simp add: take_Suc_conv_app_nth)
    have s1: "sorted (take (Suc i) R)"
      unfolding tk sorted_append using Suc.prems(3,4) Ri sd by auto
    have sub: "set (drop (Suc i) R) \<subseteq> set (drop i R)"
      by (metis set_drop_subset_set_drop le_SucI order_refl)
    have s2: "\<forall>x \<in> set (take (Suc i) R). \<forall>y \<in> set (drop (Suc i) R). x \<le> y"
    proof (intro ballI)
      fix x y assume x: "x \<in> set (take (Suc i) R)" and y: "y \<in> set (drop (Suc i) R)"
      from y obtain k where k: "k < length (drop (Suc i) R)" "y = drop (Suc i) R ! k"
        by (metis in_set_conv_nth)
      then have yk: "y = R ! (Suc i + k)" "Suc i + k < n" using sp(1) by auto
      from x consider "x \<in> set (take i arr)" | "x = R ! i" unfolding tk by auto
      then show "x \<le> y"
      proof cases
        case 1
        then show ?thesis using Suc.prems(4) y sub sd by blast
      next
        case 2
        then show ?thesis using sp(4) yk by simp
      qed
    qed
    have b: "Suc i \<le> n" "n = length R" using True sp(1) by simp_all
    have "sorted (sort_outer R (Suc i) n) \<and> mset (sort_outer R (Suc i) n) = mset R"
      by (rule Suc.hyps(1) [OF m b s1 s2])
    then show ?thesis unfolding O using sp(3) by simp
  qed
qed

lemma sort_outer_sort:
  assumes "n = length arr"
  shows "sort_outer arr 0 n = sort arr"
proof -
  have "sorted (sort_outer arr 0 n) \<and> mset (sort_outer arr 0 n) = mset arr"
    using assms by (intro sort_outer_spec) simp_all
  then show ?thesis by (metis properties_for_sort)
qed

lemma quick_select_median_sorted:
  assumes "n = length arr" and "2 \<le> n"
  shows "quick_select_median arr n
           = (if n mod 2 = 0 then (sort arr ! (n div 2 - 1) + sort arr ! (n div 2)) / 2
              else sort arr ! (n div 2))"
proof -
  have "n \<noteq> 0" "n \<noteq> 1" using assms(2) by simp_all
  then show ?thesis
    using assms(1) by (simp add: quick_select_median_def sort_outer_sort Let_def)
qed

lemma calculate_median_sorted:
  assumes "n \<le> length data" and "2 \<le> n" and "n \<le> 128"
  shows "calculate_median data n
           = (if n mod 2 = 0
              then (sort (take n data) ! (n div 2 - 1) + sort (take n data) ! (n div 2)) / 2
              else sort (take n data) ! (n div 2))"
  using assms by (simp add: calculate_median_def clip_count_small quick_select_median_sorted)

section \<open>The front of the pipeline on synthetic frames\<close>

lemma rows_frame_row:
  assumes "k < n"
  shows "take (length row) (drop (k * length row) (concat (replicate n row))) = row"
  using assms
proof (induction n arbitrary: k)
  case 0
  then show ?case by simp
next
  case (Suc n)
  show ?case
  proof (cases k)
    case 0
    then show ?thesis by simp
  next
    case (Suc k')
    then have "k' < n" using Suc.prems by simp
    then show ?thesis using Suc.IH [of k'] Suc by simp
  qed
qed

lemma remove_hot_pixels_cold:
  assumes "\<forall>x \<in> set row. x \<le> brake_temp_threshold cfg"
  shows "remove_hot_pixels cfg row (length row) = row"
proof (rule nth_equalityI)
  show "length (remove_hot_pixels cfg row (length row)) = length row"
    by (simp add: remove_hot_pixels_def remove_from_length)
next
  fix j assume "j < length (remove_hot_pixels cfg row (length row))"
  then have j: "j < length row" by (simp add: remove_hot_pixels_def remove_from_length)
  then have "\<not> row ! j > brake_temp_threshold cfg" using assms by (simp add: not_less)
  then show "remove_hot_pixels cfg row (length row) ! j = row ! j"
    using remove_from_at [of 0 j "length row" row cfg] j
    by (simp add: remove_hot_pixels_def cleaned_value_def)
qed

lemma middle_row_rows_frame:
  assumes "length row = SENSOR_WIDTH" and "\<forall>x \<in> set row. x \<le> brake_temp_threshold cfg"
    and "r < MIDDLE_ROWS"
  shows "middle_row cfg (rows_frame row) r = row"
proof -
  have "START_ROW + r < SENSOR_HEIGHT"
    using assms(3) by (simp add: START_ROW_def MIDDLE_ROWS_def SENSOR_HEIGHT_def)
  then have "take SENSOR_WIDTH (drop ((START_ROW + r) * SENSOR_WIDTH) (rows_frame row)) = row"
    using rows_frame_row [of "START_ROW + r" SENSOR_HEIGHT row] assms(1)
    by (simp add: rows_frame_def)
  then show ?thesis
    using remove_hot_pixels_cold [OF assms(2)] assms(1) by (simp add: middle_row_def)
qed

lemma calculate_median_4: "calculate_median [v, v, v, v] 4 = v"
  by (simp add: calculate_median_sorted)

lemma column_profile_rows_frame:
  assumes "length row = SENSOR_WIDTH" and "\<forall>x \<in> set row. x \<le> brake_temp_threshold cfg"
    and "\<forall>x \<in> set row. min_temp cfg \<le> x \<and> x \<le> max_temp cfg"
  shows "column_profile cfg (rows_frame row) = row"
proof -
  have rows: "map (\<lambda>r. middle_row cfg (rows_frame row) r ! col) [0..<MIDDLE_ROWS]
                = [row ! col, row ! col, row ! col, row ! col]" for col
  proof -
    have "map (\<lambda>r. middle_row cfg (rows_frame row) r ! col) [0..<MIDDLE_ROWS]
            = map (\<lambda>r. row ! col) [0..<MIDDLE_ROWS]"
      by (rule map_cong) (simp_all add: middle_row_rows_frame [OF assms(1,2)])
    then show ?thesis by (simp add: MIDDLE_ROWS_def upt_rec)
  qed
  have m4: "MIDDLE_ROWS = 4" by (simp add: MIDDLE_ROWS_def)
  have "column_profile cfg (rows_frame row) = map (\<lambda>col. row ! col) [0..<SENSOR_WIDTH]"
    unfolding column_profile_def
  proof (rule map_cong [OF refl])
    fix col assume "col \<in> set [0..<SENSOR_WIDTH]"
    then have "row ! col \<in> set row" using assms(1) by simp
    then have "min_temp cfg \<le> row ! col \<and> row ! col \<le> max_temp cfg" using assms(3) by blast
    then show "(let col_vals = map (\<lambda>r. middle_row cfg (rows_frame row) r ! col) [0..<MIDDLE_ROWS];
                   p = calculate_median col_vals MIDDLE_ROWS;
                   p = if p < min_temp cfg then min_temp cfg else p;
                   p = if max_temp cfg < p then max_temp cfg else p
               in p) = row ! col"
      unfolding rows by (simp add: Let_def m4 calculate_median_4)
  qed
  moreover have "map (\<lambda>col. row ! col) [0..<SENSOR_WIDTH] = row"
    using map_nth [of row] assms(1) by simp
  ultimately show ?thesis by simp
qed

lemma smooth_profile_first:
  assumes "\<not> has_previous st" and "length (prev_profile st) = SENSOR_WIDTH"
  shows "smooth_profile cfg st frame
           = (median_filter_3 (column_profile cfg frame) SENSOR_WIDTH,
              st\<lparr>prev_profile := median_filter_3 (column_profile cfg frame) SENSOR_WIDTH,
                 has_previous := True\<rparr>)"
proof -
  have "length (median_filter_3 (column_profile cfg frame) SENSOR_WIDTH) = SENSOR_WIDTH"
    by (simp add: median_filter_3_def)
  then show ?thesis
    using assms by (simp add: smooth_profile_def apply_ema_def memcpy_def Let_def)
qed

lemma calculate_median_const:
  assumes "0 < n" and "n \<le> 128"
  shows "calculate_median (replicate n c) n = c"
proof (cases "n = 1")
  case True
  then show ?thesis by (simp add: calculate_median_def clip_count_small quick_select_median_def)
next
  case False
  then have n2: "2 \<le> n" using assms(1) by simp
  have s: "sort (take n (replicate n c)) = replicate n c"
    by (simp add: sorted_sort_id sorted_replicate)
  have "n div 2 < n" "n div 2 - 1 < n" using n2 by simp_all
  then show ?thesis
    using calculate_median_sorted [of n "replicate n c"] n2 assms(2) by (simp add: s)
qed

lemma calculate_mad_const:
  assumes "0 < n" and "n \<le> 128"
  shows "calculate_mad (replicate n c) n = 0"
proof -
  have "map (\<lambda>i. \<bar>replicate n c ! i - c\<bar>) [0..<n] = map (\<lambda>i. 0) [0..<n]"
    by (rule map_cong) simp_all
  also have "\<dots> = replicate n 0" by (simp add: map_replicate_const)
  finally have d: "map (\<lambda>i. \<bar>replicate n c ! i - c\<bar>) [0..<n] = replicate n 0" .
  show ?thesis
    using assms
    by (simp add: calculate_mad_def Let_def clip_count_small calculate_median_const d)
qed

lemma calculate_median_3: "calculate_median [a, b, c] 3 = sort [a, b, c] ! 1"
  by (simp add: calculate_median_sorted)

lemma median_filter_3_const:
  assumes "2 \<le> n"
  shows "median_filter_3 (replicate n c) n = replicate n c"
proof (rule nth_equalityI)
  show "length (median_filter_3 (replicate n c) n) = length (replicate n c)"
    by (simp add: median_filter_3_def)
next
  fix i assume "i < length (median_filter_3 (replicate n c) n)"
  then have i: "i < n" by (simp add: median_filter_3_def)
  have "calculate_median [c, c, c] 3 = c" by (simp add: calculate_median_3)
  then show "median_filter_3 (replicate n c) n ! i = replicate n c ! i"
    using i assms by (simp add: median_filter_3_def calculate_median_2)
qed

lemma wide_filtered: "median_filter_3 wide_row 32 = wide_row"
  by (simp add: median_filter_3_def upt_rec wide_row_def calculate_median_2 calculate_median_3)

lemma wide_median: "calculate_median wide_row 32 = 30"
  by (simp add: calculate_median_sorted wide_row_def)

lemma wide_dev:
  "map (\<lambda>i. \<bar>wide_row ! i - 30\<bar>) [0..<32]
     = [10, 10, 10, 10, 10, 10, 10, 10, 10, 10, 10, 10, 10, 10, 10, 10,
        10, 10, 10, 10, 10, 10, 10, 10, 10, 10, 10, 10, 10, 10, 10, 10]"
  by (simp add: upt_rec wide_row_def)

lemma wide_mad: "calculate_mad wide_row 32 = 14.826"
  by (simp add: calculate_mad_def Let_def clip_count_small wide_median wide_dev
        calculate_median_sorted)

lemma wide_smooth:
  "smooth_profile config temporal_state_init wide_frame
     = (wide_row, temporal_state_init\<lparr>prev_profile := wide_row, has_previous := True\<rparr>)"
proof -
  have l: "length wide_row = SENSOR_WIDTH" by (simp add: wide_row_def SENSOR_WIDTH_def)
  have c: "\<forall>x \<in> set wide_row. x \<le> brake_temp_threshold config"
    "\<forall>x \<in> set wide_row. min_temp config \<le> x \<and> x \<le> max_temp config"
    by (simp_all add: wide_row_def config_def)
  have p: "column_profile config wide_frame = wide_row"
    unfolding wide_frame_def by (rule column_profile_rows_frame [OF l c])
  have f: "median_filter_3 wide_row SENSOR_WIDTH = wide_row"
    using wide_filtered by (simp add: SENSOR_WIDTH_def)
  show ?thesis
    by (simp add: smooth_profile_first temporal_state_init_def p f)
qed

lemma config_threshold: "mad_uniform_threshold config = 0.5"
  by (simp add: config_def)

lemma wide_gate: "\<not> uniform_profile config temporal_state_init wide_frame"
  by (simp add: uniform_profile_def wide_smooth SENSOR_WIDTH_def wide_mad config_threshold)

lemma uniform_smooth:
  "smooth_profile config temporal_state_init uniform_frame
     = (replicate SENSOR_WIDTH 25,
        temporal_state_init\<lparr>prev_profile := replicate SENSOR_WIDTH 25, has_previous := True\<rparr>)"
proof -
  have l: "length (replicate SENSOR_WIDTH (25::real)) = SENSOR_WIDTH" by simp
  have c: "\<forall>x \<in> set (replicate SENSOR_WIDTH (25::real)). x \<le> brake_temp_threshold config"
    "\<forall>x \<in> set (replicate SENSOR_WIDTH (25::real)). min_temp config \<le> x \<and> x \<le> max_temp config"
    by (simp_all add: config_def)
  have p: "column_profile config uniform_frame = replicate SENSOR_WIDTH 25"
    unfolding uniform_frame_def by (rule column_profile_rows_frame [OF l c])
  have f: "median_filter_3 (replicate SENSOR_WIDTH 25) SENSOR_WIDTH = replicate SENSOR_WIDTH 25"
    by (rule median_filter_3_const) (simp add: SENSOR_WIDTH_def)
  show ?thesis
    by (simp add: smooth_profile_first temporal_state_init_def p f)
qed

lemma uniform_gate: "uniform_profile config temporal_state_init uniform_frame"
  using calculate_mad_const [of SENSOR_WIDTH 25]
  by (simp add: uniform_profile_def uniform_smooth config_threshold SENSOR_WIDTH_def)

section \<open>The uniform branch\<close>

lemma zone_pixels_length:
  "length (zone_pixels frame l r) = 4 * nat (min r 31 - l + 1)"
  by (simp add: zone_pixels_def length_concat comp_def START_ROW_def MIDDLE_ROWS_def
        SENSOR_WIDTH_def upt_rec)

text \<open>
  Claim C1 fails as stated. On the frame of constant temperature, processed first after
  start-up with a cleared result structure, the gate declares the profile uniform, and
  the result has \<open>detected = 0\<close> and \<open>tyre_width = 0\<close>; the span fields are not written
  and stay zero, so the reported span is not the full sensor width; and the three zones
  do not have the same number of columns.
\<close>

theorem uniform_branch_counterexample:
  "uniform_profile config temporal_state_init uniform_frame
   \<and> detected (snd (snd (detect_tyre config temporal_state_init uniform_frame tyre_data_zero))) = 0
   \<and> tyre_width (snd (snd (detect_tyre config temporal_state_init uniform_frame tyre_data_zero))) = 0
   \<and> \<not> (span_start (snd (snd (detect_tyre config temporal_state_init uniform_frame tyre_data_zero))) = 0
        \<and> span_end (snd (snd (detect_tyre config temporal_state_init uniform_frame tyre_data_zero)))
            = int SENSOR_WIDTH - 1)
   \<and> length (zone_pixels uniform_frame 0 9) \<noteq> length (zone_pixels uniform_frame 20 31)"
  by (simp add: detect_tyre_uniform [OF uniform_gate] uniform_gate tyre_data_zero_def
        SENSOR_WIDTH_def zone_pixels_length)

text \<open>
  Claim C1, amended. When the smoothed profile is uniform
  (\<open>mad_global < mad_uniform_threshold\<close>), \<^verbatim>\<open>detect_tyre\<close> returns 0 and the result has
  \<open>detected = 0\<close>, \<open>confidence = 0\<close>, \<open>lateral_gradient = 0\<close> and \<open>tyre_width = 0\<close>; the
  fields \<open>span_start\<close> and \<open>span_end\<close> keep the values of the caller's structure; the zone
  statistics are computed from the raw frame over columns 0 to 9, 10 to 19 and 20 to 31
  (40, 40 and 48 pixels of the middle band); and the detection history is not changed.
\<close>

theorem uniform_branch:
  assumes "uniform_profile cfg st frame"
    and "detect_tyre cfg st frame result = (ret, st', res)"
  shows "ret = 0 \<and> detected res = 0 \<and> confidence res = 0 \<and> lateral_gradient res = 0
       \<and> tyre_width res = 0
       \<and> span_start res = span_start result \<and> span_end res = span_end result
       \<and> left res = calculate_zone_stats frame 0 9
       \<and> centre res = calculate_zone_stats frame 10 19
       \<and> right res = calculate_zone_stats frame 20 31
       \<and> length (zone_pixels frame 0 9) = 40 \<and> length (zone_pixels frame 10 19) = 40
       \<and> length (zone_pixels frame 20 31) = 48
       \<and> prev_detections st' = prev_detections st
       \<and> prev_detection_count st' = prev_detection_count st"
  using assms(2) unfolding detect_tyre_uniform [OF assms(1)]
  by (auto simp: zone_pixels_length smooth_profile_history)

theorem uniform_branch_witness:
  "uniform_profile config temporal_state_init uniform_frame
   \<and> fst (detect_tyre config temporal_state_init uniform_frame tyre_data_zero) = 0
   \<and> confidence (snd (snd (detect_tyre config temporal_state_init uniform_frame tyre_data_zero))) = 0
   \<and> span_end (snd (snd (detect_tyre config temporal_state_init uniform_frame tyre_data_zero))) = 0
   \<and> right (snd (snd (detect_tyre config temporal_state_init uniform_frame tyre_data_zero)))
        = calculate_zone_stats uniform_frame 20 31"
proof -
  obtain ret st' res
    where d: "detect_tyre config temporal_state_init uniform_frame tyre_data_zero = (ret, st', res)"
    by (cases "detect_tyre config temporal_state_init uniform_frame tyre_data_zero") auto
  have r: "ret = 0" "confidence res = 0" "span_end res = span_end tyre_data_zero"
    "right res = calculate_zone_stats uniform_frame 20 31"
    using uniform_branch [OF uniform_gate d] by simp_all
  have z: "span_end tyre_data_zero = 0" by (simp add: tyre_data_zero_def)
  show ?thesis unfolding d using r z uniform_gate by simp
qed

text \<open>The wide-band frame passes the gate; claim C10 applies to it.\<close>

theorem stabiliser_spans_valid_witness:
  "config_ok config
   \<and> \<not> uniform_profile config (run_frames config []) wide_frame
   \<and> detected (snd (snd (detect_tyre config (run_frames config []) wide_frame tyre_data_zero))) = 1
   \<and> 1 \<le> tyre_width (snd (snd (detect_tyre config (run_frames config []) wide_frame tyre_data_zero)))
   \<and> history_valid (fst (snd (detect_tyre config (run_frames config []) wide_frame tyre_data_zero)))"
proof -
  let ?st = "run_frames config []"
  have c: "config_ok config" by (simp add: config_ok_def config_def SENSOR_WIDTH_def)
  have s: "?st = temporal_state_init" by (simp add: run_frames_def)
  have g: "\<not> uniform_profile config ?st wide_frame" using wide_gate by (simp add: s)
  obtain smoothed st1 where sp: "smooth_profile config ?st wide_frame = (smoothed, st1)"
    by (cases "smooth_profile config ?st wide_frame") auto
  obtain l0 r0 where gr: "grow_region config smoothed (calculate_median smoothed SENSOR_WIDTH)
           (calculate_mad smoothed SENSOR_WIDTH) = (l0, r0)"
    by (cases "grow_region config smoothed (calculate_median smoothed SENSOR_WIDTH)
           (calculate_mad smoothed SENSOR_WIDTH)") auto
  obtain g' t p st2 where sb: "stabiliser config st1 l0 r0 = ((g', t, p), st2)"
    by (cases "stabiliser config st1 l0 r0") auto
  obtain ret st' res where d: "detect_tyre config ?st wide_frame tyre_data_zero = (ret, st', res)"
    by (cases "detect_tyre config ?st wide_frame tyre_data_zero") auto
  have r: "detected res = 1" "1 \<le> tyre_width res" "history_valid st'"
    using stabiliser_spans_valid [OF c refl g sp gr sb d] by blast+
  show ?thesis unfolding d using r c g by simp
qed

section \<open>The lateral gradient of the two variants\<close>

lemma gradient_fold:
  "fold (\<lambda>i (mn, mx). (if f i < mn then f i else mn, if f i > mx then f i else mx)) xs (a, b)
     = (Min (insert a (f ` set xs)), Max (insert b (f ` set xs)))"
  for f :: "int \<Rightarrow> real"
proof (induction xs arbitrary: a b)
  case Nil
  then show ?case by simp
next
  case (Cons x xs)
  have mn: "Min (insert (if f x < a then f x else a) (f ` set xs)) = Min (insert a (insert (f x) (f ` set xs)))"
    by (cases "f ` set xs = {}") (auto simp: min_def Min_insert)
  have mx: "Max (insert (if f x > b then f x else b) (f ` set xs)) = Max (insert b (insert (f x) (f ` set xs)))"
    by (cases "f ` set xs = {}") (auto simp: max_def Max_insert)
  show ?case by (simp add: Cons.IH mn mx)
qed

lemma span_gradient_range:
  assumes "l \<le> r"
  shows "span_gradient profile l r
           = Max ((\<lambda>i. profile ! nat i) ` {l..r}) - Min ((\<lambda>i. profile ! nat i) ` {l..r})"
proof -
  have s: "insert l (set [l + 1..r]) = {l..r}" using assms by auto
  have "insert (profile ! nat l) ((\<lambda>i. profile ! nat i) ` set [l + 1..r])
          = (\<lambda>i. profile ! nat i) ` {l..r}"
    unfolding s [symmetric] by simp
  then show ?thesis
    by (simp add: span_gradient_def gradient_fold [of "\<lambda>i. profile ! nat i"])
qed

lemma span_gradient_nonneg: "0 \<le> span_gradient profile l r"
proof -
  let ?S = "(\<lambda>i. profile ! nat i) ` {l + 1..r}"
  have "Min (insert (profile ! nat l) ?S) \<le> profile ! nat l"
    "profile ! nat l \<le> Max (insert (profile ! nat l) ?S)"
    by simp_all
  then have "Min (insert (profile ! nat l) ?S) \<le> Max (insert (profile ! nat l) ?S)"
    by (rule order_trans)
  then show ?thesis
    by (simp add: span_gradient_def gradient_fold [of "\<lambda>i. profile ! nat i"])
qed

lemma peak_filtered: "median_filter_3 peak_row 32 = peak_row"
  by (simp add: median_filter_3_def upt_rec peak_row_def calculate_median_2 calculate_median_3)

lemma peak_median: "calculate_median peak_row 32 = 23.5"
  by (simp add: calculate_median_sorted peak_row_def)

lemma peak_dev:
  "map (\<lambda>i. \<bar>peak_row ! i - 47 / 2\<bar>) [0..<32]
     = [3.5, 3.5, 2.5, 2.5, 1.5, 1.5, 0.5, 0.5, 0.5, 0.5, 1.5, 1.5,
        34.5, 36.5, 36.5, 35.5, 33.5, 31.5, 29.5, 27.5,
        1.5, 1.5, 0.5, 0.5, 0.5, 0.5, 1.5, 1.5, 2.5, 2.5, 3.5, 3.5]"
  by (simp add: upt_rec peak_row_def)

lemma peak_mad: "calculate_mad peak_row 32 = 2.9652"
  by (simp add: calculate_mad_def Let_def clip_count_small peak_median peak_dev
        calculate_median_sorted)

lemma peak_smooth:
  "smooth_profile config temporal_state_init peak_frame
     = (peak_row, temporal_state_init\<lparr>prev_profile := peak_row, has_previous := True\<rparr>)"
proof -
  have l: "length peak_row = SENSOR_WIDTH" by (simp add: peak_row_def SENSOR_WIDTH_def)
  have c: "\<forall>x \<in> set peak_row. x \<le> brake_temp_threshold config"
    "\<forall>x \<in> set peak_row. min_temp config \<le> x \<and> x \<le> max_temp config"
    by (simp_all add: peak_row_def config_def)
  have p: "column_profile config peak_frame = peak_row"
    unfolding peak_frame_def by (rule column_profile_rows_frame [OF l c])
  have f: "median_filter_3 peak_row SENSOR_WIDTH = peak_row"
    using peak_filtered by (simp add: SENSOR_WIDTH_def)
  show ?thesis
    by (simp add: smooth_profile_first temporal_state_init_def p f)
qed

lemma peak_gate: "\<not> uniform_profile config temporal_state_init peak_frame"
  by (simp add: uniform_profile_def peak_smooth SENSOR_WIDTH_def peak_mad config_threshold)

lemma peak_local_median: "calculate_median (drop 14 peak_row) 5 = 57"
  by (simp add: calculate_median_sorted peak_row_def)

lemma peak_local_dev:
  "map (\<lambda>i. \<bar>drop 14 peak_row ! i - 57\<bar>) [0..<5] = [3, 2, 0, 2, 4]"
  by (simp add: upt_rec peak_row_def)

lemma peak_local_mad: "calculate_mad (drop 14 peak_row) 5 = 2.9652"
  by (simp add: calculate_mad_def Let_def clip_count_small peak_local_median peak_local_dev
        calculate_median_sorted)

lemma peak_k: "region_k config peak_row = 5.9304"
proof -
  have c: "centre_col config = 16" "k_floor config = 5" "k_multiplier config = 2"
    by (simp_all add: config_def)
  show ?thesis
    by (simp add: region_k_def Let_def c SENSOR_WIDTH_def peak_local_mad)
qed

lemma peak_ok:
  "region_ok config peak_row (47 / 2) (7413 / 2500) t \<longleftrightarrow> \<bar>t - 57\<bar> \<le> 5.9304 \<or> 28.83736 \<le> t"
proof -
  have c: "peak_row ! nat (centre_col config) = 57"
    by (simp add: config_def peak_row_def)
  have d: "region_delta config (7413 / 2500) = 5.33736"
    by (simp add: region_delta_def config_def)
  show ?thesis
    by (simp add: region_ok_def extends_span_def Let_def c peak_k d)
qed

lemma peak_vals:
  "peak_row ! 9 = 24" "peak_row ! 10 = 25" "peak_row ! 11 = 25"
  "peak_row ! 12 = 58" "peak_row ! 13 = 60" "peak_row ! 14 = 60" "peak_row ! 15 = 59"
  "peak_row ! 16 = 57" "peak_row ! 17 = 55" "peak_row ! 18 = 53" "peak_row ! 19 = 51"
  "peak_row ! 20 = 25" "peak_row ! 21 = 25" "peak_row ! 22 = 24"
  by (simp_all add: peak_row_def)

lemma peak_left: "grow_left config peak_row (region_ok config peak_row (47 / 2) (7413 / 2500)) 15 16 0 = 12"
  apply (subst grow_left.simps, simp add: peak_ok peak_vals config_max_fail)
  apply (subst grow_left.simps, simp add: peak_ok peak_vals config_max_fail)
  apply (subst grow_left.simps, simp add: peak_ok peak_vals config_max_fail)
  apply (subst grow_left.simps, simp add: peak_ok peak_vals config_max_fail)
  apply (subst grow_left.simps, simp add: peak_ok peak_vals config_max_fail)
  apply (subst grow_left.simps, simp add: peak_ok peak_vals config_max_fail)
  apply (subst grow_left.simps, simp add: peak_ok peak_vals config_max_fail)
  done

lemma peak_right: "grow_right config peak_row (region_ok config peak_row (47 / 2) (7413 / 2500)) 17 16 0 = 19"
  apply (subst grow_right.simps, simp add: peak_ok peak_vals config_max_fail SENSOR_WIDTH_def)
  apply (subst grow_right.simps, simp add: peak_ok peak_vals config_max_fail SENSOR_WIDTH_def)
  apply (subst grow_right.simps, simp add: peak_ok peak_vals config_max_fail SENSOR_WIDTH_def)
  apply (subst grow_right.simps, simp add: peak_ok peak_vals config_max_fail SENSOR_WIDTH_def)
  apply (subst grow_right.simps, simp add: peak_ok peak_vals config_max_fail SENSOR_WIDTH_def)
  apply (subst grow_right.simps, simp add: peak_ok peak_vals config_max_fail SENSOR_WIDTH_def)
  done

lemma peak_region: "grow_region config peak_row (47 / 2) (7413 / 2500) = (12, 19)"
proof -
  have c: "centre_col config = 16" by (simp add: config_def)
  show ?thesis by (simp add: grow_region_def Let_def c peak_left peak_right)
qed

lemma peak_stabiliser:
  "stabiliser config (temporal_state_init\<lparr>prev_profile := peak_row, has_previous := True\<rparr>) 12 19
     = (((12, 19), (12, 19), (12, 19)),
        temporal_state_init\<lparr>prev_profile := peak_row, has_previous := True,
          prev_detections := [(12, 19), (0, 0)], prev_detection_count := 1\<rparr>)"
proof -
  have g: "apply_geometry_constraints config 12 19 = (12, 19)"
    by (simp add: apply_geometry_constraints_def config_def SENSOR_WIDTH_def)
  have p: "persistence_frames config = 2" by (simp add: config_def)
  show ?thesis
    by (simp add: stabiliser_def g apply_temporal_constraints_def apply_persistence_def p
          temporal_state_init_def Let_def)
qed

lemma peak_gradient: "span_gradient peak_row 12 19 = 9"
  by (simp add: span_gradient_def upto.simps peak_vals)

lemma peak_detect:
  "lateral_gradient (snd (snd (detect_tyre config temporal_state_init peak_frame tyre_data_zero))) = 9
   \<and> detected (snd (snd (detect_tyre config temporal_state_init peak_frame tyre_data_zero))) = 1
   \<and> span_start (snd (snd (detect_tyre config temporal_state_init peak_frame tyre_data_zero))) = 12
   \<and> span_end (snd (snd (detect_tyre config temporal_state_init peak_frame tyre_data_zero))) = 19"
proof -
  have gr: "grow_region config peak_row (calculate_median peak_row SENSOR_WIDTH)
              (calculate_mad peak_row SENSOR_WIDTH) = (12, 19)"
    using peak_region by (simp add: SENSOR_WIDTH_def peak_median peak_mad)
  show ?thesis
    unfolding detect_tyre_detected [OF peak_gate peak_smooth gr peak_stabiliser]
    by (simp add: analyze_tyre_def Let_def peak_gradient)
qed

lemma rows_frame_nth:
  assumes "k < SENSOR_HEIGHT" and "col < length row"
  shows "rows_frame row ! (k * length row + col) = row ! col"
proof -
  have t: "take (length row) (drop (k * length row) (rows_frame row)) = row"
    using rows_frame_row [OF assms(1), of row] by (simp add: rows_frame_def)
  have "length (rows_frame row) = SENSOR_HEIGHT * length row"
    by (simp add: rows_frame_def length_concat sum_list_replicate)
  then have "k * length row + col < length (rows_frame row)"
    using assms
    by (metis add.commute mult.commute mult_Suc_right
        Suc_leI add_less_cancel_left less_le_trans mult_le_mono1 nat_add_left_cancel_less)
  then have "rows_frame row ! (k * length row + col)
               = take (length row) (drop (k * length row) (rows_frame row)) ! col"
    using assms(2) by simp
  then show ?thesis by (simp add: t)
qed

lemma extract_middle_rows_frame:
  assumes "length row = SENSOR_WIDTH" and "\<forall>x \<in> set row. x > - 270"
  shows "extract_middle_rows (rows_frame row) = row"
proof -
  have v: "rows_frame row ! (k * SENSOR_WIDTH + col) = row ! col"
    if "k < SENSOR_HEIGHT" "col < SENSOR_WIDTH" for k col
    using rows_frame_nth [of k col row] that assms(1) by simp
  have "extract_middle_rows (rows_frame row) = map (\<lambda>col. row ! col) [0..<SENSOR_WIDTH]"
    unfolding extract_middle_rows_def
  proof (rule map_cong [OF refl])
    fix col assume "col \<in> set [0..<SENSOR_WIDTH]"
    then have c: "col < SENSOR_WIDTH" by simp
    then have "row ! col \<in> set row" using assms(1) by simp
    then have p: "row ! col > - 270" using assms(2) by blast
    have r: "rows_frame row ! (10 * SENSOR_WIDTH + col) = row ! col"
      "rows_frame row ! (11 * SENSOR_WIDTH + col) = row ! col"
      "rows_frame row ! (12 * SENSOR_WIDTH + col) = row ! col"
      "rows_frame row ! (13 * SENSOR_WIDTH + col) = row ! col"
      using c by (simp_all add: v SENSOR_HEIGHT_def)
    show "(let (sum, count) =
                 fold (\<lambda>row' (sum, count).
                         (let idx = row' * SENSOR_WIDTH + col
                          in if rows_frame row ! idx > - 270
                             then (sum + rows_frame row ! idx, count + 1)
                             else (sum, count)))
                      [10..<14] (0, 0::nat)
           in if count > 0 then sum / real count else 0) = row ! col"
      using p by (simp add: upt_rec Let_def r)
  qed
  moreover have "map (\<lambda>col. row ! col) [0..<SENSOR_WIDTH] = row"
    using map_nth [of row] assms(1) by simp
  ultimately show ?thesis by simp
qed

lemma peak_fast_median: "fst (fast_median peak_row 32) = 47 / 2"
  by (simp add: fast_median_def Let_def peak_row_def)

lemma peak_fast_mad: "fast_mad peak_row 32 (47 / 2) = 7413 / 2500"
  by (simp add: fast_mad_def Let_def SENSOR_WIDTH_def peak_dev fast_median_def)

lemma peak_seed: "hottest_seed peak_row = 13"
  by (simp add: hottest_seed_def SENSOR_WIDTH_def upt_rec peak_row_def signed_divide_int_def)

lemma peak_span_left: "span_left peak_row (80989 / 2500) 12 13 = 12"
  apply (subst span_left.simps, simp add: peak_vals)
  apply (subst span_left.simps, simp add: peak_vals)
  done

lemma peak_span_right: "span_right peak_row (80989 / 2500) 14 13 = 19"
  apply (subst span_right.simps, simp add: peak_vals SENSOR_WIDTH_def)
  apply (subst span_right.simps, simp add: peak_vals SENSOR_WIDTH_def)
  apply (subst span_right.simps, simp add: peak_vals SENSOR_WIDTH_def)
  apply (subst span_right.simps, simp add: peak_vals SENSOR_WIDTH_def)
  apply (subst span_right.simps, simp add: peak_vals SENSOR_WIDTH_def)
  apply (subst span_right.simps, simp add: peak_vals SENSOR_WIDTH_def)
  apply (subst span_right.simps, simp add: peak_vals SENSOR_WIDTH_def)
  done

lemma peak_detection:
  "detect_tyre_span peak_row (fst thermal_algorithm_init)
     = \<lparr> td_span_start = 12, td_span_end = 19, td_tyre_width = 8,
         td_confidence = 2471 / 2500, td_detected = True \<rparr>"
  by (simp add: detect_tyre_span_def Let_def thermal_algorithm_init_def SENSOR_WIDTH_def
        peak_fast_median peak_fast_mad peak_seed peak_span_left peak_span_right)

lemma peak_zone_left: "za_avg (analyze_zone peak_row 12 13) = 59"
  by (simp add: analyze_zone_def Let_def SENSOR_WIDTH_def fast_mean_def fast_median_def
        fast_mad_def upt_rec peak_vals split_beta)

lemma peak_zone_right: "za_avg (analyze_zone peak_row 18 19) = 52"
  by (simp add: analyze_zone_def Let_def SENSOR_WIDTH_def fast_mean_def fast_median_def
        fast_mad_def upt_rec peak_vals split_beta)

lemma peak_process:
  "fd_lateral_gradient (snd (thermal_algorithm_process 0 peak_frame (fst thermal_algorithm_init))) = - 7
   \<and> td_detected (fd_detection (snd (thermal_algorithm_process 0 peak_frame (fst thermal_algorithm_init))))
   \<and> td_span_start (fd_detection (snd (thermal_algorithm_process 0 peak_frame (fst thermal_algorithm_init)))) = 12
   \<and> td_span_end (fd_detection (snd (thermal_algorithm_process 0 peak_frame (fst thermal_algorithm_init)))) = 19"
proof -
  have l: "length peak_row = SENSOR_WIDTH" by (simp add: peak_row_def SENSOR_WIDTH_def)
  have c: "\<forall>x \<in> set peak_row. x > - 270" by (simp add: peak_row_def)
  have p: "extract_middle_rows peak_frame = peak_row"
    unfolding peak_frame_def by (rule extract_middle_rows_frame [OF l c])
  show ?thesis
    by (simp add: thermal_algorithm_process_def Let_def p peak_detection signed_divide_int_def
          peak_zone_left peak_zone_right)
qed

lemma late_gradient_nonneg:
  "0 \<le> lateral_gradient (snd (snd (detect_tyre cfg st frame res)))"
proof (cases "uniform_profile cfg st frame")
  case True
  then show ?thesis by (simp add: detect_tyre_uniform)
next
  case False
  obtain smoothed st1 where sp: "smooth_profile cfg st frame = (smoothed, st1)"
    by (cases "smooth_profile cfg st frame") auto
  obtain l0 r0 where gr: "grow_region cfg smoothed (calculate_median smoothed SENSOR_WIDTH)
           (calculate_mad smoothed SENSOR_WIDTH) = (l0, r0)"
    by (cases "grow_region cfg smoothed (calculate_median smoothed SENSOR_WIDTH)
           (calculate_mad smoothed SENSOR_WIDTH)") auto
  obtain g t p st2 where sb: "stabiliser cfg st1 l0 r0 = ((g, t, p), st2)"
    by (cases "stabiliser cfg st1 l0 r0") auto
  show ?thesis
    unfolding detect_tyre_detected [OF False sp gr sb]
    by (simp add: analyze_tyre_def Let_def span_gradient_nonneg)
qed

lemma early_gradient_zones:
  "td_detected (fd_detection (snd (thermal_algorithm_process fc frame cfg)))
   \<Longrightarrow> fd_lateral_gradient (snd (thermal_algorithm_process fc frame cfg))
         = za_avg (fd_right (snd (thermal_algorithm_process fc frame cfg)))
           - za_avg (fd_left (snd (thermal_algorithm_process fc frame cfg)))"
  by (simp add: thermal_algorithm_process_def Let_def split: if_splits)

text \<open>
  Claim C8. Whenever the early variant detects a tyre, its lateral gradient is the
  average of the right zone minus the average of the left zone. The later variant's
  lateral gradient is the value computed by \<^verbatim>\<open>analyze_tyre\<close>, which for a span
  \<open>l \<le> r\<close> is the maximum minus the minimum of the smoothed profile over the span; the
  gradient it reports is never negative. On the frame \<open>peak_frame\<close>, processed first after
  start-up, both variants detect the span of columns 12 to 19; the early one reports the
  gradient \<open>-7\<close> and the later one reports \<open>9\<close>.
\<close>

theorem gradient_variants_differ:
  "(\<forall>fc frame cfg.
      td_detected (fd_detection (snd (thermal_algorithm_process fc frame cfg)))
      \<longrightarrow> fd_lateral_gradient (snd (thermal_algorithm_process fc frame cfg))
           = za_avg (fd_right (snd (thermal_algorithm_process fc frame cfg)))
             - za_avg (fd_left (snd (thermal_algorithm_process fc frame cfg))))
   \<and> (\<forall>cfg frame profile l r res.
        lateral_gradient (analyze_tyre cfg frame profile l r res) = span_gradient profile l r)
   \<and> (\<forall>profile l r. l \<le> r
        \<longrightarrow> span_gradient profile l r
             = Max ((\<lambda>i. profile ! nat i) ` {l..r}) - Min ((\<lambda>i. profile ! nat i) ` {l..r}))
   \<and> (\<forall>cfg st frame res. 0 \<le> lateral_gradient (snd (snd (detect_tyre cfg st frame res))))
   \<and> fd_lateral_gradient (snd (thermal_algorithm_process 0 peak_frame (fst thermal_algorithm_init)))
       = - 7
   \<and> lateral_gradient (snd (snd (detect_tyre config temporal_state_init peak_frame tyre_data_zero)))
       = 9"
proof -
  have a: "\<forall>cfg frame profile l r res.
        lateral_gradient (analyze_tyre cfg frame profile l r res) = span_gradient profile l r"
    by (simp add: analyze_tyre_def Let_def)
  show ?thesis
    using early_gradient_zones a span_gradient_range late_gradient_nonneg peak_process peak_detect
    by blast
qed

theorem gradient_variants_differ_witness:
  "td_detected (fd_detection (snd (thermal_algorithm_process 0 peak_frame (fst thermal_algorithm_init))))
   \<and> za_avg (fd_right (snd (thermal_algorithm_process 0 peak_frame (fst thermal_algorithm_init))))
       - za_avg (fd_left (snd (thermal_algorithm_process 0 peak_frame (fst thermal_algorithm_init))))
       = - 7
   \<and> (12::int) \<le> 19
   \<and> Max ((\<lambda>i. peak_row ! nat i) ` {12..19}) - Min ((\<lambda>i. peak_row ! nat i) ` {12..19}) = 9"
proof -
  have d: "td_detected (fd_detection (snd (thermal_algorithm_process 0 peak_frame (fst thermal_algorithm_init))))"
    using peak_process by blast
  have le: "(12::int) \<le> 19" by simp
  have e: "fd_lateral_gradient (snd (thermal_algorithm_process 0 peak_frame (fst thermal_algorithm_init)))
             = za_avg (fd_right (snd (thermal_algorithm_process 0 peak_frame (fst thermal_algorithm_init))))
               - za_avg (fd_left (snd (thermal_algorithm_process 0 peak_frame (fst thermal_algorithm_init))))"
    using gradient_variants_differ d by blast
  have m: "span_gradient peak_row 12 19
             = Max ((\<lambda>i. peak_row ! nat i) ` {12..19}) - Min ((\<lambda>i. peak_row ! nat i) ` {12..19})"
    using gradient_variants_differ le by blast
  have v: "fd_lateral_gradient (snd (thermal_algorithm_process 0 peak_frame (fst thermal_algorithm_init))) = - 7"
    using gradient_variants_differ by blast
  show ?thesis using d le e m v peak_gradient by simp
qed

section \<open>Sanitising at the output boundary\<close>




lemma temp_to_int16_tenths_nonfinite:
  "\<not> isfinite temp \<Longrightarrow> temp_to_int16_tenths temp = Some 0"
  by (simp add: temp_to_int16_tenths_def)

lemma raw_channel_nonfinite:
  "\<not> isfinite (cf_div s 8) \<Longrightarrow> temp_to_int16_tenths (cf_div s 8) = Some 0"
  by (rule temp_to_int16_tenths_nonfinite)










end
